theory Spec2Isabelle
  imports Main
begin

section \<open>Python values, exceptions and strings\<close>

text \<open>
  The handler of \<^verbatim>\<open>functions/create.py\<close> runs on Python 3.9. A Python \<^verbatim>\<open>str\<close> is a
  sequence of Unicode code points; it is modelled as a \<^typ>\<open>string\<close> whose characters are
  the code points U+0000 to U+00FF (Latin-1), so \<^term>\<open>length\<close> counts code points as
  \<^verbatim>\<open>len\<close> does. The string methods below are Python's, restricted to that range.
\<close>

datatype pyval =
    PNone
  | PBool bool
  | PInt int
  | PFloat
  | PStr string
  | PList "pyval list"
  | PDict "(string \<times> pyval) list"

text \<open>
  The exception classes that the handler's \<^verbatim>\<open>except\<close> clauses tell apart; each carries
  \<^verbatim>\<open>str(e)\<close>. \<open>OtherException\<close> is any \<^verbatim>\<open>Exception\<close> that is none of the three named
  classes (TypeError, AttributeError, botocore's connection errors, ...).
\<close>

datatype exn =
    ClientError string
  | JSONDecodeError string
  | KeyError string
  | OtherException string

fun str :: "exn \<Rightarrow> string" where
  "str (ClientError m) = m"
| "str (JSONDecodeError m) = m"
| "str (KeyError m) = m"
| "str (OtherException m) = m"

definition quoted :: "string \<Rightarrow> string" where
  \<comment> \<open>\<^verbatim>\<open>repr\<close> of a string made of plain identifier characters\<close>
  "quoted k = CHR 0x27 # k @ [CHR 0x27]"

definition getitem :: "(string \<times> 'v) list \<Rightarrow> string \<Rightarrow> exn + 'v" where
  \<comment> \<open>\<^verbatim>\<open>d[k]\<close> on a dict: \<^verbatim>\<open>str(KeyError(k))\<close> is \<^verbatim>\<open>repr(k)\<close>\<close>
  "getitem d k = (case map_of d k of None \<Rightarrow> Inl (KeyError (quoted k)) | Some v \<Rightarrow> Inr v)"

fun type_name :: "pyval \<Rightarrow> string" where
  "type_name PNone = ''NoneType''"
| "type_name (PBool _) = ''bool''"
| "type_name (PInt _) = ''int''"
| "type_name PFloat = ''float''"
| "type_name (PStr _) = ''str''"
| "type_name (PList _) = ''list''"
| "type_name (PDict _) = ''dict''"

fun subscript :: "pyval \<Rightarrow> string \<Rightarrow> exn + pyval" where
  \<comment> \<open>\<^verbatim>\<open>v[k]\<close> with a string key \<open>k\<close>, on any value\<close>
  "subscript (PDict d) k = getitem d k"
| "subscript (PList _) k = Inl (OtherException ''list indices must be integers or slices, not str'')"
| "subscript (PStr _) k = Inl (OtherException ''string indices must be integers'')"
| "subscript v k = Inl (OtherException (quoted (type_name v) @ '' object is not subscriptable''))"

definition isspace :: "char \<Rightarrow> bool" where
  \<comment> \<open>the characters \<^verbatim>\<open>str.strip()\<close> removes\<close>
  "isspace c = (let n = (of_char c :: nat) in
     (9 \<le> n \<and> n \<le> 13) \<or> (28 \<le> n \<and> n \<le> 32) \<or> n = 0x85 \<or> n = 0xA0)"

definition strip :: "string \<Rightarrow> string" where
  "strip s = rev (dropWhile isspace (rev (dropWhile isspace s)))"

definition lower_char :: "char \<Rightarrow> char" where
  "lower_char c = (let n = (of_char c :: nat) in
     if (65 \<le> n \<and> n \<le> 90) \<or> (0xC0 \<le> n \<and> n \<le> 0xDE \<and> n \<noteq> 0xD7)
     then char_of (n + 32) else c)"

definition lower :: "string \<Rightarrow> string" where
  "lower s = map lower_char s"

definition isalnum_char :: "char \<Rightarrow> bool" where
  \<comment> \<open>\<^verbatim>\<open>c.isalpha() or c.isdecimal() or c.isdigit() or c.isnumeric()\<close>\<close>
  "isalnum_char c = (let n = (of_char c :: nat) in
     (48 \<le> n \<and> n \<le> 57) \<or> (65 \<le> n \<and> n \<le> 90) \<or> (97 \<le> n \<and> n \<le> 122) \<or>
     n = 0xAA \<or> n = 0xB2 \<or> n = 0xB3 \<or> n = 0xB5 \<or> n = 0xB9 \<or> n = 0xBA \<or>
     (0xBC \<le> n \<and> n \<le> 0xBE) \<or> (0xC0 \<le> n \<and> n \<le> 0xD6) \<or>
     (0xD8 \<le> n \<and> n \<le> 0xF6) \<or> (0xF8 \<le> n \<and> n \<le> 0xFF))"

definition isalnum :: "string \<Rightarrow> bool" where
  "isalnum s = (s \<noteq> [] \<and> list_all isalnum_char s)"

function replace :: "string \<Rightarrow> string \<Rightarrow> string \<Rightarrow> string" where
  \<comment> \<open>\<^verbatim>\<open>s.replace(old, new)\<close> for a non-empty \<open>old\<close>: leftmost, non-overlapping\<close>
  "replace old new [] = []"
| "replace old new (c # cs) =
     (if old \<noteq> [] \<and> take (length old) (c # cs) = old
      then new @ replace old new (drop (length old) (c # cs))
      else c # replace old new cs)"
  by pat_completeness auto
termination
  by (relation "measure (\<lambda>(old, new, s). length s)") auto

definition lower_method :: "pyval \<Rightarrow> exn + string" where
  \<comment> \<open>\<^verbatim>\<open>v.lower()\<close>: only a \<^verbatim>\<open>str\<close> has the attribute\<close>
  "lower_method v = (case v of
       PStr s \<Rightarrow> Inr (lower s)
     | _ \<Rightarrow> Inl (OtherException (quoted (type_name v) @ '' object has no attribute '' @ quoted ''lower'')))"

section \<open>The handler's surroundings\<close>

record response =
  statusCode :: nat
  headers :: "(string \<times> string) list"
  body :: pyval
    \<comment> \<open>the object the source hands to \<^verbatim>\<open>json.dumps\<close>; the serialisation is the library's\<close>

record kb_summary =
  name :: string
  knowledgeBaseId :: string

record knowledge_base_args =
  kb_args_name :: string
  kb_args_description :: string
  roleArn :: string
  embeddingModelArn :: string
  collectionArn :: string
  vectorIndexName :: string
  vectorField :: string
  textField :: string
  metadataField :: string

record data_source_args =
  ds_args_knowledgeBaseId :: string
  ds_args_name :: string
  ds_args_description :: string
  bucketArn :: string
  inclusionPrefixes :: "string list"

text \<open>The calls the handler makes on its three service clients, with their arguments.\<close>

datatype call =
    ListKnowledgeBases
  | PutObject string string string string
      \<comment> \<open>Bucket, Key, Body (before \<^verbatim>\<open>encode\<close>), ContentType\<close>
  | IndexExists string
  | CreateIndex string pyval
  | CreateKnowledgeBase knowledge_base_args
  | CreateDataSource data_source_args
  | DeleteKnowledgeBase string

datatype log_line =
    Line string
  | LineJson string pyval
      \<comment> \<open>\<^verbatim>\<open>print(prefix + json.dumps(value, indent=2))\<close>\<close>

record st =
  calls :: "call list"
  log :: "log_line list"

definition invoke :: "call \<Rightarrow> st \<Rightarrow> st" where
  "invoke c s = s\<lparr>calls := calls s @ [c]\<rparr>"

definition print :: "string \<Rightarrow> st \<Rightarrow> st" where
  "print l s = s\<lparr>log := log s @ [Line l]\<rparr>"

definition print_json :: "string \<Rightarrow> pyval \<Rightarrow> st \<Rightarrow> st" where
  "print_json p v s = s\<lparr>log := log s @ [LineJson p v]\<rparr>"

text \<open>
  Everything the handler reads from outside its own text: the process environment, the
  clock, the \<^verbatim>\<open>json\<close> parser, the construction of the clients, and the answer of each
  service operation to the arguments it is called with (\<open>Inl\<close> and \<open>Some\<close>: the
  exception it raises). The handler calls every operation at most once, so a function of
  the arguments covers any service behaviour. The service responses are typed as boto3's
  response shapes give them.
\<close>

record world =
  environ :: "(string \<times> string) list"
  json_loads :: "string \<Rightarrow> exn + pyval"
  now :: string
    \<comment> \<open>\<^verbatim>\<open>datetime.now().strftime("%Y-%m-%d %H:%M:%S UTC")\<close>\<close>
  client_setup :: "string \<Rightarrow> string \<Rightarrow> exn option"
    \<comment> \<open>lines 51 to 70, from the region and the OpenSearch host\<close>
  list_knowledge_bases :: "exn + kb_summary list"
  put_object :: "string \<Rightarrow> string \<Rightarrow> string \<Rightarrow> string \<Rightarrow> exn option"
  indices_exists :: "string \<Rightarrow> exn + bool"
  indices_create :: "string \<Rightarrow> pyval \<Rightarrow> exn + string"
    \<comment> \<open>the response as \<^verbatim>\<open>print\<close> shows it\<close>
  create_knowledge_base :: "knowledge_base_args \<Rightarrow> exn + string"
    \<comment> \<open>\<^verbatim>\<open>kb_response['knowledgeBase']['knowledgeBaseId']\<close>\<close>
  create_data_source :: "data_source_args \<Rightarrow> exn + string"
    \<comment> \<open>\<^verbatim>\<open>ds_response['dataSource']['dataSourceId']\<close>\<close>
  delete_knowledge_base :: "string \<Rightarrow> exn option"

record config =
  opensearch_collection_arn :: string
  opensearch_collection_endpoint :: string
  s3_bucket_name :: string
  s3_bucket_arn :: string
  bedrock_kb_role_arn :: string
  region :: string

definition loads :: "world \<Rightarrow> pyval \<Rightarrow> exn + pyval" where
  \<comment> \<open>\<^verbatim>\<open>json.loads(v)\<close>: a value that is not text raises TypeError\<close>
  "loads w v = (case v of
       PStr s \<Rightarrow> json_loads w s
     | _ \<Rightarrow> Inl (OtherException
             (''the JSON object must be str, bytes or bytearray, not '' @ type_name v)))"

section \<open>The handler of functions/create.py\<close>

definition headers_const :: "(string \<times> string) list" where
  "headers_const =
     [(''Content-Type'', ''application/json''),
      (''Access-Control-Allow-Origin'', ''*''),
      (''Access-Control-Allow-Methods'', ''POST''),
      (''Access-Control-Allow-Headers'', ''Content-Type, Authorization'')]"

definition reply :: "nat \<Rightarrow> (string \<times> pyval) list \<Rightarrow> response" where
  "reply code d = \<lparr>statusCode = code, headers = headers_const, body = PDict d\<rparr>"

definition error_reply :: "nat \<Rightarrow> string \<Rightarrow> response" where
  "error_reply code msg = reply code [(''error'', PStr msg)]"

definition get_client_id :: "world \<Rightarrow> (string \<times> pyval) list \<Rightarrow> exn + string" where
  \<comment> \<open>lines 17 and 18\<close>
  "get_client_id w event =
     (case getitem event ''body'' of
        Inl e \<Rightarrow> Inl e
      | Inr b \<Rightarrow>
          (case loads w b of
             Inl e \<Rightarrow> Inl e
           | Inr parsed \<Rightarrow>
               (case subscript parsed ''client_id'' of
                  Inl e \<Rightarrow> Inl e
                | Inr v \<Rightarrow>
                    (case lower_method v of
                       Inl e \<Rightarrow> Inl e
                     | Inr s \<Rightarrow> Inr (strip s)))))"

definition validate :: "string \<Rightarrow> response option" where
  \<comment> \<open>lines 20 to 36: \<open>Some\<close> is the early return\<close>
  "validate client_id =
     (if client_id = [] \<or> length client_id < 2
      then Some (error_reply 400 ''client_id must be at least 2 characters long'')
      else if \<not> isalnum (replace ''_'' [] (replace ''-'' [] client_id))
      then Some (error_reply 400
             ''client_id can only contain letters, numbers, hyphens and underscores'')
      else None)"

definition read_config :: "world \<Rightarrow> exn + config" where
  \<comment> \<open>lines 39 to 44\<close>
  "read_config w =
     (case getitem (environ w) ''OPENSEARCH_COLLECTION_ARN'' of Inl e \<Rightarrow> Inl e | Inr a \<Rightarrow>
     (case getitem (environ w) ''OPENSEARCH_COLLECTION_ENDPOINT'' of Inl e \<Rightarrow> Inl e | Inr b \<Rightarrow>
     (case getitem (environ w) ''S3_BUCKET_NAME'' of Inl e \<Rightarrow> Inl e | Inr c \<Rightarrow>
     (case getitem (environ w) ''S3_BUCKET_ARN'' of Inl e \<Rightarrow> Inl e | Inr d \<Rightarrow>
     (case getitem (environ w) ''BEDROCK_KB_ROLE_ARN'' of Inl e \<Rightarrow> Inl e | Inr r \<Rightarrow>
     (case getitem (environ w) ''REGION'' of Inl e \<Rightarrow> Inl e | Inr g \<Rightarrow>
        Inr \<lparr>opensearch_collection_arn = a, opensearch_collection_endpoint = b,
             s3_bucket_name = c, s3_bucket_arn = d, bedrock_kb_role_arn = r,
             region = g\<rparr>))))))"

definition index_body :: pyval where
  "index_body = PDict
     [(''settings'', PDict
        [(''index.knn'', PBool True),
         (''number_of_shards'', PInt 1),
         (''number_of_replicas'', PInt 0)]),
      (''mappings'', PDict
        [(''properties'', PDict
           [(''vector'', PDict
              [(''type'', PStr ''knn_vector''),
               (''dimension'', PInt 1536),
               (''method'', PDict
                  [(''name'', PStr ''hnsw''),
                   (''engine'', PStr ''faiss''),
                   (''parameters'', PDict
                      [(''ef_construction'', PInt 512), (''m'', PInt 16)])])]),
            (''text'', PDict [(''type'', PStr ''text'')]),
            (''metadata'', PDict [(''type'', PStr ''text'')])])])]"

definition s3_console_url :: "config \<Rightarrow> string \<Rightarrow> string" where
  "s3_console_url cfg folder_key =
     ''https://s3.console.aws.amazon.com/s3/buckets/'' @ s3_bucket_name cfg @
     ''?region='' @ region cfg @ ''&prefix='' @ folder_key"

definition success_response ::
  "world \<Rightarrow> config \<Rightarrow> string \<Rightarrow> string \<Rightarrow> string \<Rightarrow> (string \<times> pyval) list" where
  \<comment> \<open>lines 233 to 251\<close>
  "success_response w cfg client_id kb_id data_source_id =
     (let folder_key = client_id @ ''/'' in
      [(''success'', PBool True),
       (''message'', PStr (''Knowledge Base successfully created for client '' @ client_id)),
       (''kb_id'', PStr kb_id),
       (''data_source_id'', PStr data_source_id),
       (''client_id'', PStr client_id),
       (''s3_bucket'', PStr (s3_bucket_name cfg)),
       (''s3_folder'', PStr folder_key),
       (''s3_console_url'', PStr (s3_console_url cfg folder_key)),
       (''opensearch_index'', PStr (client_id @ ''_index'')),
       (''status'', PStr ''created''),
       (''timestamp'', PStr (now w)),
       (''next_steps'', PList
          [PStr (''1. Upload documents to: s3://'' @ s3_bucket_name cfg @ ''/'' @ folder_key),
           PStr (''2. Or use AWS Console: '' @ s3_console_url cfg folder_key),
           PStr ''3. Use POST /admin/sync-kb with kb_id to process documents'',
           PStr ''4. Query your knowledge base with POST /query''])])"

text \<open>
  Each step below is the rest of the \<^verbatim>\<open>try\<close> body from its first line on. It returns
  the response of a \<^verbatim>\<open>return\<close> (\<open>Inr\<close>) or the exception that leaves the body
  (\<open>Inl\<close>), with the calls made and the lines printed so far.
\<close>

definition finish ::
  "world \<Rightarrow> config \<Rightarrow> string \<Rightarrow> string \<Rightarrow> string \<Rightarrow> st \<Rightarrow> (exn + response) \<times> st" where
  \<comment> \<open>lines 231 to 260\<close>
  "finish w cfg client_id kb_id data_source_id s =
     (let d = success_response w cfg client_id kb_id data_source_id;
          s1 = print ''Knowledge Base creation completed successfully!'' s;
          s2 = print_json ''Response: '' (PDict d) s1
      in (Inr (reply 200 d), s2))"

definition data_source_request ::
  "config \<Rightarrow> string \<Rightarrow> string \<Rightarrow> data_source_args" where
  \<comment> \<open>the keyword arguments of lines 200 to 211\<close>
  "data_source_request cfg client_id kb_id =
     (let folder_key = client_id @ ''/'' in
      \<lparr>ds_args_knowledgeBaseId = kb_id,
       ds_args_name = ''s3-datasource-'' @ client_id,
       ds_args_description = ''S3 data source para '' @ client_id @ '' - carpeta '' @ folder_key,
       bucketArn = s3_bucket_arn cfg,
       inclusionPrefixes = [folder_key]\<rparr>)"

definition data_source_step ::
  "world \<Rightarrow> config \<Rightarrow> string \<Rightarrow> string \<Rightarrow> st \<Rightarrow> (exn + response) \<times> st" where
  \<comment> \<open>lines 198 to 228, then the success path\<close>
  "data_source_step w cfg client_id kb_id s =
     (let folder_key = client_id @ ''/'';
          s1 = print (''Creating Data Source for S3 prefix: '' @ folder_key) s;
          args = data_source_request cfg client_id kb_id;
          s2 = invoke (CreateDataSource args) s1
      in case create_data_source w args of
           Inr data_source_id \<Rightarrow>
             finish w cfg client_id kb_id data_source_id
               (print (''Data Source creada: '' @ data_source_id) s2)
         | Inl (ClientError m) \<Rightarrow>
             (let s3 = print (''Error creando Data Source: '' @ m) s2;
                  s4 = print (''Cleaning up Knowledge Base: '' @ kb_id) s3;
                  s5 = invoke (DeleteKnowledgeBase kb_id) s4;
                  s6 = (case delete_knowledge_base w kb_id of
                          None \<Rightarrow> s5
                        | Some cleanup_error \<Rightarrow>
                            print (''Failed to cleanup KB: '' @ str cleanup_error) s5)
              in (Inr (error_reply 500 (''Failed to create Data Source: '' @ m)), s6))
         | Inl e \<Rightarrow> (Inl e, s2))"

definition knowledge_base_request :: "config \<Rightarrow> string \<Rightarrow> knowledge_base_args" where
  \<comment> \<open>the keyword arguments of lines 163 to 185\<close>
  "knowledge_base_request cfg client_id =
     \<lparr>kb_args_name = ''kb-'' @ client_id,
      kb_args_description = ''Knowledge Base para cliente '' @ client_id @
                            '' - RAG Multi-tenant Demo'',
      roleArn = bedrock_kb_role_arn cfg,
      embeddingModelArn =
        ''arn:aws:bedrock:us-east-1::foundation-model/amazon.titan-embed-text-v1'',
      collectionArn = opensearch_collection_arn cfg,
      vectorIndexName = client_id @ ''_index'',
      vectorField = ''vector'',
      textField = ''text'',
      metadataField = ''metadata''\<rparr>"

definition knowledge_base_step ::
  "world \<Rightarrow> config \<Rightarrow> string \<Rightarrow> st \<Rightarrow> (exn + response) \<times> st" where
  \<comment> \<open>lines 160 to 196, then the data source\<close>
  "knowledge_base_step w cfg client_id s =
     (let kb_name = ''kb-'' @ client_id;
          s1 = print (''Creating Knowledge Base: '' @ kb_name) s;
          args = knowledge_base_request cfg client_id;
          s2 = invoke (CreateKnowledgeBase args) s1
      in case create_knowledge_base w args of
           Inr kb_id \<Rightarrow>
             data_source_step w cfg client_id kb_id
               (print (''Knowledge Base creada: '' @ kb_id) s2)
         | Inl (ClientError m) \<Rightarrow>
             (Inr (error_reply 500 (''Failed to create Knowledge Base: '' @ m)),
              print (''Error creando Knowledge Base: '' @ m) s2)
         | Inl e \<Rightarrow> (Inl e, s2))"

definition index_failed :: "exn \<Rightarrow> st \<Rightarrow> (exn + response) \<times> st" where
  \<comment> \<open>lines 152 to 158: \<^verbatim>\<open>except Exception\<close>\<close>
  "index_failed e s =
     (Inr (error_reply 500 (''Failed to create OpenSearch index: '' @ str e)),
      print (''Error creating OpenSearch index: '' @ str e) s)"

definition index_step ::
  "world \<Rightarrow> config \<Rightarrow> string \<Rightarrow> st \<Rightarrow> (exn + response) \<times> st" where
  \<comment> \<open>lines 108 to 158, then the knowledge base\<close>
  "index_step w cfg client_id s =
     (let index_name = client_id @ ''_index'';
          s1 = print (''Creating OpenSearch index: '' @ index_name) s;
          s2 = invoke (IndexExists index_name) s1
      in case indices_exists w index_name of
           Inl e \<Rightarrow> index_failed e s2
         | Inr True \<Rightarrow>
             knowledge_base_step w cfg client_id
               (print (''Index '' @ index_name @ '' already exists, skipping creation'') s2)
         | Inr False \<Rightarrow>
             (let s3 = invoke (CreateIndex index_name index_body) s2
              in case indices_create w index_name index_body of
                   Inl e \<Rightarrow> index_failed e s3
                 | Inr response \<Rightarrow>
                     knowledge_base_step w cfg client_id
                       (print (''Index response: '' @ response)
                          (print (''OpenSearch index created: '' @ index_name) s3))))"

definition folder_step ::
  "world \<Rightarrow> config \<Rightarrow> string \<Rightarrow> st \<Rightarrow> (exn + response) \<times> st" where
  \<comment> \<open>lines 87 to 105, then the index\<close>
  "folder_step w cfg client_id s =
     (let folder_key = client_id @ ''/'';
          readme_content = ''# Knowledge Base para '' @ client_id;
          s1 = invoke (PutObject (s3_bucket_name cfg) (folder_key @ ''README.md'')
                         readme_content ''text/markdown'') s
      in case put_object w (s3_bucket_name cfg) (folder_key @ ''README.md'')
                readme_content ''text/markdown'' of
           None \<Rightarrow>
             index_step w cfg client_id
               (print (''Carpeta creada: s3://'' @ s3_bucket_name cfg @ ''/'' @ folder_key) s1)
         | Some (ClientError m) \<Rightarrow>
             (Inr (error_reply 500 (''Failed to create S3 folder: '' @ m)),
              print (''Error creando carpeta S3: '' @ m) s1)
         | Some e \<Rightarrow> (Inl e, s1))"

definition duplicate_check ::
  "world \<Rightarrow> config \<Rightarrow> string \<Rightarrow> st \<Rightarrow> (exn + response) \<times> st" where
  \<comment> \<open>lines 72 to 85, then the storage folder\<close>
  "duplicate_check w cfg client_id s =
     (let s1 = invoke ListKnowledgeBases s
      in case list_knowledge_bases w of
           Inr existing_kbs \<Rightarrow>
             (case find (\<lambda>kb. name kb = ''kb-'' @ client_id) existing_kbs of
                Some kb \<Rightarrow>
                  (Inr (reply 409
                     [(''error'', PStr (''Knowledge Base for client '' @ [CHR 0x22] @ client_id @
                                        [CHR 0x22] @ '' already exists'')),
                      (''existing_kb_id'', PStr (knowledgeBaseId kb))]), s1)
              | None \<Rightarrow> folder_step w cfg client_id s1)
         | Inl (ClientError m) \<Rightarrow>
             folder_step w cfg client_id (print (''Warning checking existing KBs: '' @ m) s1)
         | Inl e \<Rightarrow> (Inl e, s1))"

definition host :: "config \<Rightarrow> string" where
  \<comment> \<open>line 61\<close>
  "host cfg = replace ''http://'' [] (replace ''https://'' [] (opensearch_collection_endpoint cfg))"

definition provision :: "world \<Rightarrow> config \<Rightarrow> string \<Rightarrow> st \<Rightarrow> (exn + response) \<times> st" where
  \<comment> \<open>lines 46 to 70, then the five steps\<close>
  "provision w cfg client_id s =
     (let s1 = print (''Creating Knowledge Base for client: '' @ client_id) s;
          s2 = print (''Region: '' @ region cfg) s1;
          s3 = print (''S3 Bucket: '' @ s3_bucket_name cfg) s2
      in case client_setup w (region cfg) (host cfg) of
           Some e \<Rightarrow> (Inl e, s3)
         | None \<Rightarrow> duplicate_check w cfg client_id s3)"

definition try_body :: "world \<Rightarrow> (string \<times> pyval) list \<Rightarrow> st \<Rightarrow> (exn + response) \<times> st" where
  \<comment> \<open>lines 17 to 260\<close>
  "try_body w event s =
     (case get_client_id w event of
        Inl e \<Rightarrow> (Inl e, s)
      | Inr client_id \<Rightarrow>
          (case validate client_id of
             Some r \<Rightarrow> (Inr r, s)
           | None \<Rightarrow>
               (case read_config w of
                  Inl e \<Rightarrow> (Inl e, s)
                | Inr cfg \<Rightarrow> provision w cfg client_id s)))"

definition except_clauses :: "(exn + response) \<times> st \<Rightarrow> response \<times> st" where
  \<comment> \<open>lines 262 to 284: the three outer \<^verbatim>\<open>except\<close> clauses, in their order\<close>
  "except_clauses x =
     (case x of
        (Inr r, s) \<Rightarrow> (r, s)
      | (Inl (JSONDecodeError m), s) \<Rightarrow>
          (error_reply 400 ''Invalid JSON in request body'', print (''JSON parse error: '' @ m) s)
      | (Inl (KeyError m), s) \<Rightarrow>
          (error_reply 400 (''Missing required field: '' @ m),
           print (''Missing required field: '' @ m) s)
      | (Inl e, s) \<Rightarrow>
          (error_reply 500 (''Internal server error: '' @ str e), print (''Error: '' @ str e) s))"

definition lambda_handler :: "world \<Rightarrow> (string \<times> pyval) list \<Rightarrow> response \<times> st" where
  "lambda_handler w event = except_clauses (try_body w event \<lparr>calls = [], log = []\<rparr>)"

section \<open>Path conditions\<close>

text \<open>
  The conditions under which the handler gets past each stage, read off its branches, and
  the state it has built when the clients exist (lines 46 to 48 have printed).
\<close>

definition started :: "config \<Rightarrow> string \<Rightarrow> st" where
  "started cfg client_id =
     \<lparr>calls = [],
      log = [Line (''Creating Knowledge Base for client: '' @ client_id),
             Line (''Region: '' @ region cfg),
             Line (''S3 Bucket: '' @ s3_bucket_name cfg)]\<rparr>"

definition accepted :: "world \<Rightarrow> (string \<times> pyval) list \<Rightarrow> string \<Rightarrow> config \<Rightarrow> bool" where
  "accepted w event client_id cfg \<longleftrightarrow>
     get_client_id w event = Inr client_id \<and> validate client_id = None \<and>
     read_config w = Inr cfg \<and> client_setup w (region cfg) (host cfg) = None"

definition no_duplicate :: "world \<Rightarrow> string \<Rightarrow> bool" where
  "no_duplicate w client_id =
     (case list_knowledge_bases w of
        Inr existing_kbs \<Rightarrow> find (\<lambda>kb. name kb = ''kb-'' @ client_id) existing_kbs = None
      | Inl (ClientError m) \<Rightarrow> True
      | Inl _ \<Rightarrow> False)"

definition put_readme :: "config \<Rightarrow> string \<Rightarrow> call" where
  "put_readme cfg client_id =
     PutObject (s3_bucket_name cfg) (client_id @ ''/README.md'')
       (''# Knowledge Base para '' @ client_id) ''text/markdown''"

definition folder_written :: "world \<Rightarrow> config \<Rightarrow> string \<Rightarrow> bool" where
  "folder_written w cfg client_id \<longleftrightarrow>
     put_object w (s3_bucket_name cfg) (client_id @ ''/README.md'')
       (''# Knowledge Base para '' @ client_id) ''text/markdown'' = None"

definition index_calls :: "world \<Rightarrow> string \<Rightarrow> call list" where
  "index_calls w client_id =
     (if indices_exists w (client_id @ ''_index'') = Inr True
      then [IndexExists (client_id @ ''_index'')]
      else [IndexExists (client_id @ ''_index''), CreateIndex (client_id @ ''_index'') index_body])"

definition index_ready :: "world \<Rightarrow> string \<Rightarrow> bool" where
  "index_ready w client_id =
     (case indices_exists w (client_id @ ''_index'') of
        Inl e \<Rightarrow> False
      | Inr True \<Rightarrow> True
      | Inr False \<Rightarrow>
          (case indices_create w (client_id @ ''_index'') index_body of
             Inl e \<Rightarrow> False | Inr r \<Rightarrow> True))"

definition parsed_body :: "world \<Rightarrow> (string \<times> pyval) list \<Rightarrow> pyval option" where
  "parsed_body w event =
     (case map_of event ''body'' of
        Some (PStr text) \<Rightarrow> (case json_loads w text of Inr v \<Rightarrow> Some v | Inl e \<Rightarrow> None)
      | _ \<Rightarrow> None)"

definition config_keys :: "string list" where
  "config_keys =
     [''OPENSEARCH_COLLECTION_ARN'', ''OPENSEARCH_COLLECTION_ENDPOINT'', ''S3_BUCKET_NAME'',
      ''S3_BUCKET_ARN'', ''BEDROCK_KB_ROLE_ARN'', ''REGION'']"

section \<open>Sample requests and services\<close>

text \<open>
  A request as API Gateway delivers it, around the body \<^verbatim>\<open>{"client_id": "<v>"}\<close>, and
  services that all succeed for a tenant nobody has registered. The parser knows that one
  body and rejects every other text.
\<close>

definition body_text :: "string \<Rightarrow> string" where
  "body_text v =
     ''{'' @ [CHR 0x22] @ ''client_id'' @ [CHR 0x22] @ '': '' @ [CHR 0x22] @ v @ [CHR 0x22] @ ''}''"

definition sample_event :: "string \<Rightarrow> (string \<times> pyval) list" where
  "sample_event text = [(''httpMethod'', PStr ''POST''), (''body'', PStr text)]"

definition sample_config :: config where
  "sample_config =
     \<lparr>opensearch_collection_arn = ''arn:aws:aoss:us-east-1:111122223333:collection/abc123'',
      opensearch_collection_endpoint = ''https://abc123.us-east-1.aoss.amazonaws.com'',
      s3_bucket_name = ''rag-uno-rag-documents-111122223333'',
      s3_bucket_arn = ''arn:aws:s3:::rag-uno-rag-documents-111122223333'',
      bedrock_kb_role_arn = ''arn:aws:iam::111122223333:role/rag-uno-BedrockKBExecutionRole'',
      region = ''us-east-1''\<rparr>"

definition sample_world :: "string \<Rightarrow> pyval \<Rightarrow> world" where
  "sample_world text parsed =
     \<lparr>environ =
        [(''OPENSEARCH_COLLECTION_ENDPOINT'', opensearch_collection_endpoint sample_config),
         (''OPENSEARCH_COLLECTION_ARN'', opensearch_collection_arn sample_config),
         (''S3_BUCKET_NAME'', s3_bucket_name sample_config),
         (''S3_BUCKET_ARN'', s3_bucket_arn sample_config),
         (''BEDROCK_KB_ROLE_ARN'', bedrock_kb_role_arn sample_config),
         (''REGION'', region sample_config)],
      json_loads = (\<lambda>s. if s = text then Inr parsed
                         else Inl (JSONDecodeError ''Expecting value: line 1 column 1 (char 0)'')),
      now = ''2025-01-01 00:00:00 UTC'',
      client_setup = (\<lambda>_ _. None),
      list_knowledge_bases = Inr [],
      put_object = (\<lambda>_ _ _ _. None),
      indices_exists = (\<lambda>_. Inr False),
      indices_create = (\<lambda>_ _. Inr ''{}''),
      create_knowledge_base = (\<lambda>_. Inr ''KB0000000A''),
      create_data_source = (\<lambda>_. Inr ''DS0000000A''),
      delete_knowledge_base = (\<lambda>_. None)\<rparr>"

definition tenant_world :: "string \<Rightarrow> world" where
  "tenant_world v = sample_world (body_text v) (PDict [(''client_id'', PStr v)])"

definition tenant_event :: "string \<Rightarrow> (string \<times> pyval) list" where
  "tenant_event v = sample_event (body_text v)"

text \<open>
  The character class \<^verbatim>\<open>[a-z0-9_-]\<close>, by code point.
\<close>

definition in_charset :: "char \<Rightarrow> bool" where
  "in_charset c = (let n = (of_char c :: nat) in
     (97 \<le> n \<and> n \<le> 122) \<or> (48 \<le> n \<and> n \<le> 57) \<or> n = 95 \<or> n = 45)"

text \<open>
  The sample services in a process whose environment lacks \<^verbatim>\<open>REGION\<close>.
\<close>

definition without_region :: world where
  "without_region = (tenant_world ''acme'')
     \<lparr>environ :=
        [(''OPENSEARCH_COLLECTION_ENDPOINT'', opensearch_collection_endpoint sample_config),
         (''OPENSEARCH_COLLECTION_ARN'', opensearch_collection_arn sample_config),
         (''S3_BUCKET_NAME'', s3_bucket_name sample_config),
         (''S3_BUCKET_ARN'', s3_bucket_arn sample_config),
         (''BEDROCK_KB_ROLE_ARN'', bedrock_kb_role_arn sample_config)]\<rparr>"

text \<open>
  Helpers for stating what a run has called and printed: the index-creation calls, and
  a state that continues another (its calls and its log only grow).
\<close>

definition is_create_index :: "call \<Rightarrow> bool" where
  "is_create_index c = (case c of CreateIndex n b \<Rightarrow> True | _ \<Rightarrow> False)"

definition extends :: "st \<Rightarrow> st \<Rightarrow> bool" where
  "extends s0 s \<longleftrightarrow> (\<exists>cs. calls s = calls s0 @ cs) \<and> (\<exists>ls. log s = log s0 @ ls)"


definition indexed_world :: world where
  "indexed_world = (tenant_world ''Acme-01'')\<lparr>indices_exists := (\<lambda>_. Inr True)\<rparr>"

definition denied_world :: world where
  "denied_world = (tenant_world ''Acme-01'')
     \<lparr>create_data_source :=
        (\<lambda>_. Inl (ClientError ''An error occurred (AccessDeniedException) when calling the CreateDataSource operation: denied'')),
      delete_knowledge_base :=
        (\<lambda>_. Some (OtherException ''Read timeout on endpoint URL''))\<rparr>"

definition unreachable_world :: world where
  "unreachable_world = (tenant_world ''Acme-01'')
     \<lparr>create_data_source :=
        (\<lambda>_. Inl (OtherException ''Could not connect to the endpoint URL''))\<rparr>"

text \<open>
  A listing that the service refuses, and a listing that cannot reach the service.
\<close>

definition throttled_world :: world where
  "throttled_world = (tenant_world ''Acme-01'')
     \<lparr>list_knowledge_bases :=
        Inl (ClientError ''An error occurred (ThrottlingException) when calling the ListKnowledgeBases operation: Rate exceeded'')\<rparr>"

definition offline_world :: world where
  "offline_world = (tenant_world ''Acme-01'')
     \<lparr>list_knowledge_bases := Inl (OtherException ''Could not connect to the endpoint URL'')\<rparr>"

text \<open>
  A request that carries no body, and a parser at its recursion limit on a text of one
  hundred thousand opening brackets.
\<close>

definition empty_event :: "(string \<times> pyval) list" where
  "empty_event = [(''httpMethod'', PStr ''POST''), (''body'', PNone)]"

definition nested_text :: string where
  "nested_text = replicate 100000 (CHR ''['')"

definition nested_world :: world where
  "nested_world = (tenant_world ''Acme-01'')
     \<lparr>json_loads :=
        (\<lambda>s. if s = nested_text
              then Inl (OtherException ''maximum recursion depth exceeded while decoding a JSON array from a unicode string'')
              else json_loads (tenant_world ''Acme-01'') s)\<rparr>"

section \<open>Basic facts\<close>

lemma reply_fields:
  "statusCode (reply code d) = code"
  "body (reply code d) = PDict d"
  "headers (reply code d) = headers_const"
  by (simp_all add: reply_def)

lemma error_reply_fields:
  "statusCode (error_reply code msg) = code"
  "body (error_reply code msg) = PDict [(''error'', PStr msg)]"
  "headers (error_reply code msg) = headers_const"
  by (simp_all add: error_reply_def reply_def)

lemma calls_print [simp]: "calls (print l s) = calls s"
  by (simp add: print_def)

lemma calls_print_json [simp]: "calls (print_json p v s) = calls s"
  by (simp add: print_json_def)

lemma calls_invoke [simp]: "calls (invoke c s) = calls s @ [c]"
  by (simp add: invoke_def)

lemma log_print [simp]: "log (print l s) = log s @ [Line l]"
  by (simp add: print_def)

lemma log_print_json [simp]: "log (print_json p v s) = log s @ [LineJson p v]"
  by (simp add: print_json_def)

lemma log_invoke [simp]: "log (invoke c s) = log s"
  by (simp add: invoke_def)

lemma except_clauses_return [simp]: "except_clauses (Inr r, s) = (r, s)"
  by (simp add: except_clauses_def)

lemma replace_single: "replace [c] [] s = filter (\<lambda>x. x \<noteq> c) s"
  by (induction s) auto

lemma handler_accepted:
  assumes "accepted w event client_id cfg"
  shows "lambda_handler w event = except_clauses (duplicate_check w cfg client_id (started cfg client_id))"
  using assms
  by (simp add: accepted_def lambda_handler_def try_body_def provision_def started_def print_def)

lemma duplicate_check_passes:
  assumes "no_duplicate w client_id"
  shows "\<exists>s'. duplicate_check w cfg client_id s = folder_step w cfg client_id s' \<and>
              calls s' = calls s @ [ListKnowledgeBases]"
  using assms
  by (auto simp: no_duplicate_def duplicate_check_def split: sum.splits exn.splits)

lemma folder_step_passes:
  assumes "folder_written w cfg client_id"
  shows "\<exists>s'. folder_step w cfg client_id s = index_step w cfg client_id s' \<and>
              calls s' = calls s @ [put_readme cfg client_id]"
  using assms
  by (auto simp: folder_written_def folder_step_def put_readme_def)

lemma index_step_passes:
  assumes "index_ready w client_id"
  shows "\<exists>s'. index_step w cfg client_id s = knowledge_base_step w cfg client_id s' \<and>
              calls s' = calls s @ index_calls w client_id"
  using assms
  by (auto simp: index_ready_def index_step_def index_calls_def Let_def split: sum.splits bool.splits)

lemma reach_knowledge_base_step:
  assumes "accepted w event client_id cfg" and "no_duplicate w client_id"
    and "folder_written w cfg client_id" and "index_ready w client_id"
  shows "\<exists>s. lambda_handler w event = except_clauses (knowledge_base_step w cfg client_id s) \<and>
             calls s = ListKnowledgeBases # put_readme cfg client_id # index_calls w client_id"
proof -
  obtain s1 where s1: "duplicate_check w cfg client_id (started cfg client_id) = folder_step w cfg client_id s1"
      "calls s1 = [ListKnowledgeBases]"
    using duplicate_check_passes [OF assms(2), of cfg "started cfg client_id"]
    by (auto simp: started_def)
  obtain s2 where s2: "folder_step w cfg client_id s1 = index_step w cfg client_id s2"
      "calls s2 = calls s1 @ [put_readme cfg client_id]"
    using folder_step_passes [OF assms(3), of s1] by auto
  obtain s3 where s3: "index_step w cfg client_id s2 = knowledge_base_step w cfg client_id s3"
      "calls s3 = calls s2 @ index_calls w client_id"
    using index_step_passes [OF assms(4), of cfg s2] by auto
  show ?thesis
    using handler_accepted [OF assms(1)] s1 s2 s3 by auto
qed

lemma get_client_id_of_body:
  assumes "parsed_body w event = Some (PDict d)" and "map_of d ''client_id'' = Some (PStr raw)"
  shows "get_client_id w event = Inr (strip (lower raw))"
  using assms
  by (auto simp: parsed_body_def get_client_id_def getitem_def loads_def lower_method_def
           split: option.splits pyval.splits sum.splits)

lemma get_client_id_missing_key:
  assumes "parsed_body w event = Some (PDict d)" and "map_of d ''client_id'' = None"
  shows "get_client_id w event = Inl (KeyError (quoted ''client_id''))"
  using assms
  by (auto simp: parsed_body_def get_client_id_def getitem_def loads_def
           split: option.splits pyval.splits sum.splits)

lemma get_client_id_bad_json:
  assumes "map_of event ''body'' = Some (PStr text)" and "json_loads w text = Inl e"
  shows "get_client_id w event = Inl e"
  using assms by (simp add: get_client_id_def getitem_def loads_def)

lemma handler_no_client_id:
  assumes "get_client_id w event = Inl e"
  shows "lambda_handler w event = except_clauses (Inl e, \<lparr>calls = [], log = []\<rparr>)"
  using assms by (simp add: lambda_handler_def try_body_def)

lemma handler_invalid:
  assumes "get_client_id w event = Inr client_id" and "validate client_id = Some r"
  shows "lambda_handler w event = (r, \<lparr>calls = [], log = []\<rparr>)"
  using assms by (simp add: lambda_handler_def try_body_def)

lemma isalnum_filter_False:
  assumes "c \<in> set s" and "c \<noteq> CHR ''-''" and "c \<noteq> CHR ''_''" and "\<not> isalnum_char c"
  shows "\<not> isalnum (replace ''_'' [] (replace ''-'' [] s))"
proof -
  have "c \<in> set (replace ''_'' [] (replace ''-'' [] s))"
    using assms by (simp add: replace_single)
  with assms(4) show ?thesis
    by (auto simp: isalnum_def list_all_iff)
qed

lemma lower_char_not_upper:
  "\<not> (65 \<le> (of_char (lower_char x) :: nat) \<and> (of_char (lower_char x) :: nat) \<le> 90)"
  by (auto simp: lower_char_def Let_def)

lemma set_strip: "set (strip s) \<subseteq> set s"
proof -
  have "set (strip s) \<subseteq> set (dropWhile isspace s)"
    unfolding strip_def using set_dropWhileD [of _ isspace "rev (dropWhile isspace s)"] by auto
  also have "\<dots> \<subseteq> set s"
    using set_dropWhileD [of _ isspace s] by auto
  finally show ?thesis .
qed

lemma outside_charset_not_alnum:
  assumes "c \<in> set (strip (lower raw))" and "(of_char c :: nat) < 128" and "\<not> in_charset c"
  shows "c \<noteq> CHR ''-'' \<and> c \<noteq> CHR ''_'' \<and> \<not> isalnum_char c"
proof -
  from assms(1) set_strip have "c \<in> set (lower raw)" by blast
  then obtain x where "c = lower_char x" by (auto simp: lower_def)
  then have up: "\<not> (65 \<le> (of_char c :: nat) \<and> (of_char c :: nat) \<le> 90)"
    using lower_char_not_upper by simp
  from assms(3) have "c \<noteq> CHR ''-''" "c \<noteq> CHR ''_''"
    by (auto simp: in_charset_def)
  moreover from assms(2,3) up have "\<not> isalnum_char c"
    by (auto simp: in_charset_def isalnum_char_def Let_def)
  ultimately show ?thesis by simp
qed

lemma extends_refl: "extends s s"
  by (simp add: extends_def)

lemma extends_print: "extends s0 s \<Longrightarrow> extends s0 (print l s)"
  by (auto simp: extends_def)

lemma extends_print_json: "extends s0 s \<Longrightarrow> extends s0 (print_json p v s)"
  by (auto simp: extends_def)

lemma extends_invoke: "extends s0 s \<Longrightarrow> extends s0 (invoke c s)"
  by (auto simp: extends_def)

lemmas extends_intros = extends_print extends_print_json extends_invoke

lemma finish_extends:
  "extends s0 s \<Longrightarrow> extends s0 (snd (finish w cfg client_id kb_id data_source_id s))"
  by (simp add: finish_def Let_def extends_intros)

lemma data_source_step_extends:
  "extends s0 s \<Longrightarrow> extends s0 (snd (data_source_step w cfg client_id kb_id s))"
  by (auto simp: data_source_step_def Let_def split: sum.splits exn.splits option.splits
           intro!: finish_extends extends_intros)

lemma knowledge_base_step_extends:
  "extends s0 s \<Longrightarrow> extends s0 (snd (knowledge_base_step w cfg client_id s))"
  by (auto simp: knowledge_base_step_def Let_def split: sum.splits exn.splits
           intro!: data_source_step_extends extends_intros)

lemma index_step_extends:
  "extends s0 s \<Longrightarrow> extends s0 (snd (index_step w cfg client_id s))"
  by (auto simp: index_step_def index_failed_def Let_def split: sum.splits bool.splits
           intro!: knowledge_base_step_extends extends_intros)

lemma folder_step_extends:
  "extends s0 s \<Longrightarrow> extends s0 (snd (folder_step w cfg client_id s))"
  by (auto simp: folder_step_def Let_def split: option.splits exn.splits
           intro!: index_step_extends extends_intros)

lemma except_clauses_extends:
  "extends s0 (snd x) \<Longrightarrow> extends s0 (snd (except_clauses x))"
  by (auto simp: except_clauses_def split: prod.splits sum.splits exn.splits
           intro!: extends_intros)

lemma folder_step_extends_put:
  "extends (invoke (put_readme cfg client_id) s) (snd (folder_step w cfg client_id s))"
  by (auto simp: folder_step_def Let_def put_readme_def split: option.splits exn.splits
           intro!: index_step_extends extends_intros extends_refl)

lemma folder_step_first_call:
  "\<exists>cs. calls (snd (folder_step w cfg client_id s)) = calls s @ put_readme cfg client_id # cs"
  using folder_step_extends_put [of cfg client_id s w]
  by (auto simp: extends_def)

lemma data_source_step_compensates:
  assumes "create_data_source w (data_source_request cfg client_id kb_id) = Inl (ClientError m)"
  shows "fst (data_source_step w cfg client_id kb_id s) =
           Inr (error_reply 500 (''Failed to create Data Source: '' @ m))"
    and "calls (snd (data_source_step w cfg client_id kb_id s)) =
           calls s @ [CreateDataSource (data_source_request cfg client_id kb_id),
                      DeleteKnowledgeBase kb_id]"
    and "delete_knowledge_base w kb_id = Some e \<Longrightarrow>
           last (log (snd (data_source_step w cfg client_id kb_id s))) =
             Line (''Failed to cleanup KB: '' @ str e)"
  using assms
  by (auto simp: data_source_step_def Let_def split: option.splits)

lemma data_source_step_succeeds:
  assumes "create_data_source w (data_source_request cfg client_id kb_id) = Inr data_source_id"
  shows "fst (data_source_step w cfg client_id kb_id s) =
           Inr (reply 200 (success_response w cfg client_id kb_id data_source_id))"
    and "calls (snd (data_source_step w cfg client_id kb_id s)) =
           calls s @ [CreateDataSource (data_source_request cfg client_id kb_id)]"
  using assms
  by (auto simp: data_source_step_def finish_def Let_def)

lemma knowledge_base_step_created:
  assumes "create_knowledge_base w (knowledge_base_request cfg client_id) = Inr kb_id"
  shows "\<exists>s'. knowledge_base_step w cfg client_id s = data_source_step w cfg client_id kb_id s' \<and>
              calls s' = calls s @ [CreateKnowledgeBase (knowledge_base_request cfg client_id)]"
  using assms
  by (auto simp: knowledge_base_step_def Let_def)

lemma data_source_step_calls:
  "\<exists>cs. calls (snd (data_source_step w cfg client_id kb_id s)) = calls s @ cs \<and>
        (\<forall>c\<in>set cs. \<not> is_create_index c)"
  by (auto simp: data_source_step_def finish_def Let_def is_create_index_def
           split: sum.splits exn.splits option.splits)

lemma knowledge_base_step_calls:
  "\<exists>cs. calls (snd (knowledge_base_step w cfg client_id s)) =
          calls s @ CreateKnowledgeBase (knowledge_base_request cfg client_id) # cs \<and>
        (\<forall>c\<in>set cs. \<not> is_create_index c)"
proof (cases "create_knowledge_base w (knowledge_base_request cfg client_id)")
  case (Inl e)
  then show ?thesis
    by (auto simp: knowledge_base_step_def Let_def split: exn.splits)
next
  case (Inr kb_id)
  from knowledge_base_step_created [OF Inr, of s] obtain s' where
    s': "knowledge_base_step w cfg client_id s = data_source_step w cfg client_id kb_id s'"
        "calls s' = calls s @ [CreateKnowledgeBase (knowledge_base_request cfg client_id)]"
    by blast
  from data_source_step_calls [of w cfg client_id kb_id s'] s' show ?thesis
    by auto
qed

lemma calls_except_clauses: "calls (snd (except_clauses x)) = calls (snd x)"
  by (auto simp: except_clauses_def split: prod.splits sum.splits exn.splits)

lemma fst_except_clauses: "fst x = Inr r \<Longrightarrow> fst (except_clauses x) = r"
  by (cases x) (simp add: except_clauses_def)

lemma log_except_clauses: "fst x = Inr r \<Longrightarrow> log (snd (except_clauses x)) = log (snd x)"
  by (cases x) (simp add: except_clauses_def)

lemma index_step_skips:
  assumes "indices_exists w (client_id @ ''_index'') = Inr True"
  shows "index_step w cfg client_id s =
           knowledge_base_step w cfg client_id
             (print (''Index '' @ client_id @ ''_index'' @ '' already exists, skipping creation'')
                (invoke (IndexExists (client_id @ ''_index''))
                   (print (''Creating OpenSearch index: '' @ client_id @ ''_index'') s)))"
  using assms by (simp add: index_step_def Let_def)


lemma accepted_indexed_world:
  "accepted indexed_world (tenant_event ''Acme-01'') ''acme-01'' sample_config"
  by code_simp

lemma accepted_delete_update:
  "accepted (w\<lparr>delete_knowledge_base := d\<rparr>) event client_id cfg = accepted w event client_id cfg"
  by (simp add: accepted_def get_client_id_def loads_def read_config_def
        cong: sum.case_cong pyval.case_cong)

lemma no_duplicate_delete_update:
  "no_duplicate (w\<lparr>delete_knowledge_base := d\<rparr>) client_id = no_duplicate w client_id"
  by (simp add: no_duplicate_def)

lemma folder_written_delete_update:
  "folder_written (w\<lparr>delete_knowledge_base := d\<rparr>) cfg client_id = folder_written w cfg client_id"
  by (simp add: folder_written_def)

lemma index_ready_delete_update:
  "index_ready (w\<lparr>delete_knowledge_base := d\<rparr>) client_id = index_ready w client_id"
  by (simp add: index_ready_def cong: sum.case_cong bool.case_cong)

lemma reach_data_source_step:
  assumes "accepted w event client_id cfg"
    and "no_duplicate w client_id"
    and "folder_written w cfg client_id"
    and "index_ready w client_id"
    and "create_knowledge_base w (knowledge_base_request cfg client_id) = Inr kb_id"
  shows "\<exists>s. lambda_handler w event = except_clauses (data_source_step w cfg client_id kb_id s) \<and>
             calls s = ListKnowledgeBases # put_readme cfg client_id # index_calls w client_id @
                       [CreateKnowledgeBase (knowledge_base_request cfg client_id)]"
proof -
  obtain s where s: "lambda_handler w event = except_clauses (knowledge_base_step w cfg client_id s)"
      "calls s = ListKnowledgeBases # put_readme cfg client_id # index_calls w client_id"
    using reach_knowledge_base_step [OF assms(1-4)] by blast
  obtain s' where s': "knowledge_base_step w cfg client_id s = data_source_step w cfg client_id kb_id s'"
      "calls s' = calls s @ [CreateKnowledgeBase (knowledge_base_request cfg client_id)]"
    using knowledge_base_step_created [OF assms(5), of s] by blast
  from s s' show ?thesis by auto
qed

lemma data_source_failure_response:
  assumes "accepted w event client_id cfg"
    and "no_duplicate w client_id"
    and "folder_written w cfg client_id"
    and "index_ready w client_id"
    and "create_knowledge_base w (knowledge_base_request cfg client_id) = Inr kb_id"
    and "create_data_source w (data_source_request cfg client_id kb_id) = Inl (ClientError m)"
  shows "fst (lambda_handler w event) = error_reply 500 (''Failed to create Data Source: '' @ m)"
proof -
  obtain s where "lambda_handler w event = except_clauses (data_source_step w cfg client_id kb_id s)"
    using reach_data_source_step [OF assms(1-5)] by blast
  then show ?thesis
    using data_source_step_compensates(1) [OF assms(6), where s = s]
    by (simp add: fst_except_clauses)
qed

lemma accepted_denied_world:
  "accepted denied_world (tenant_event ''Acme-01'') ''acme-01'' sample_config"
  by code_simp

lemma parsed_body_tenant:
  "parsed_body (tenant_world v) (tenant_event v) = Some (PDict [(''client_id'', PStr v)])"
  by (simp add: parsed_body_def tenant_world_def tenant_event_def sample_world_def sample_event_def)

lemma accepted_throttled_world:
  "accepted throttled_world (tenant_event ''Acme-01'') ''acme-01'' sample_config"
  by code_simp

section \<open>The claims\<close>

lemma bad_json_run:
  assumes "map_of event ''body'' = Some (PStr text)"
    and "json_loads w text = Inl (JSONDecodeError m)"
  shows "lambda_handler w event =
           (error_reply 400 ''Invalid JSON in request body'',
            \<lparr>calls = [], log = [Line (''JSON parse error: '' @ m)]\<rparr>)"
  using handler_no_client_id [OF get_client_id_bad_json [OF assms]]
  by (simp add: except_clauses_def print_def)

text \<open>
  C9, as amended. A request whose body is a text on which \<^verbatim>\<open>json.loads\<close> raises
  \<^verbatim>\<open>JSONDecodeError\<close> gets HTTP 400 with the message \<^verbatim>\<open>Invalid JSON in request body\<close>;
  the handler has called no service and has printed the parse error only.
\<close>

theorem malformed_json_rejected:
  assumes "map_of event ''body'' = Some (PStr text)"
    and "json_loads w text = Inl (JSONDecodeError m)"
  shows "statusCode (fst (lambda_handler w event)) = 400 \<and>
         body (fst (lambda_handler w event)) =
           PDict [(''error'', PStr ''Invalid JSON in request body'')] \<and>
         calls (snd (lambda_handler w event)) = [] \<and>
         lambda_handler w event =
           (error_reply 400 ''Invalid JSON in request body'',
            \<lparr>calls = [], log = [Line (''JSON parse error: '' @ m)]\<rparr>)"
  using bad_json_run [OF assms]
  by (simp add: error_reply_fields)

theorem malformed_json_rejected_witness:
  "map_of (sample_event ''{client_id'') ''body'' = Some (PStr ''{client_id'') \<and>
   json_loads (tenant_world ''Acme-01'') ''{client_id'' =
     Inl (JSONDecodeError ''Expecting value: line 1 column 1 (char 0)'') \<and>
   statusCode (fst (lambda_handler (tenant_world ''Acme-01'') (sample_event ''{client_id''))) = 400 \<and>
   body (fst (lambda_handler (tenant_world ''Acme-01'') (sample_event ''{client_id''))) =
     PDict [(''error'', PStr ''Invalid JSON in request body'')] \<and>
   lambda_handler (tenant_world ''Acme-01'') (sample_event ''{client_id'') =
     (error_reply 400 ''Invalid JSON in request body'',
      \<lparr>calls = [],
       log = [Line (''JSON parse error: '' @
                    ''Expecting value: line 1 column 1 (char 0)'')]\<rparr>)"
proof -
  have h1: "map_of (sample_event ''{client_id'') ''body'' = Some (PStr ''{client_id'')"
    by (simp add: sample_event_def)
  have h2: "json_loads (tenant_world ''Acme-01'') ''{client_id'' =
              Inl (JSONDecodeError ''Expecting value: line 1 column 1 (char 0)'')"
    by (simp add: tenant_world_def sample_world_def body_text_def)
  show ?thesis
    using h1 h2 malformed_json_rejected [OF h1 h2] by blast
qed

text \<open>
  C9 as stated speaks of every body that is not valid JSON. The clause at line 262
  catches \<^verbatim>\<open>JSONDecodeError\<close> only. A request without a body arrives with \<^verbatim>\<open>body\<close>
  \<^verbatim>\<open>None\<close>, on which \<^verbatim>\<open>json.loads\<close> raises TypeError; and on a malformed text nested too
  deeply the parser raises RecursionError. Both reach the last \<^verbatim>\<open>except\<close> clause: HTTP
  500.
\<close>

theorem malformed_json_counterexample:
  "map_of empty_event ''body'' = Some PNone \<and>
   statusCode (fst (lambda_handler (tenant_world ''Acme-01'') empty_event)) = 500 \<and>
   body (fst (lambda_handler (tenant_world ''Acme-01'') empty_event)) =
     PDict [(''error'', PStr ''Internal server error: the JSON object must be str, bytes or bytearray, not NoneType'')] \<and>
   json_loads nested_world nested_text =
     Inl (OtherException ''maximum recursion depth exceeded while decoding a JSON array from a unicode string'') \<and>
   statusCode (fst (lambda_handler nested_world (sample_event nested_text))) = 500 \<and>
   body (fst (lambda_handler nested_world (sample_event nested_text))) =
     PDict [(''error'', PStr ''Internal server error: maximum recursion depth exceeded while decoding a JSON array from a unicode string'')]"
  by (simp add: empty_event_def nested_world_def sample_event_def lambda_handler_def
        try_body_def get_client_id_def getitem_def loads_def except_clauses_def
        error_reply_fields)

lemma short_id_run:
  assumes "parsed_body w event = Some (PDict d)"
    and "map_of d ''client_id'' = Some (PStr raw)"
    and "length (strip (lower raw)) < 2"
  shows "lambda_handler w event =
           (error_reply 400 ''client_id must be at least 2 characters long'',
            \<lparr>calls = [], log = []\<rparr>)"
proof -
  have "validate (strip (lower raw)) =
          Some (error_reply 400 ''client_id must be at least 2 characters long'')"
    using assms(3) by (simp add: validate_def)
  with get_client_id_of_body [OF assms(1,2)] show ?thesis
    by (rule handler_invalid)
qed

text \<open>
  C5. When the identifier in the body, lower-cased and then trimmed, is empty or a single
  character, the handler answers HTTP 400 with the minimum-length message and has called
  no service.
\<close>

theorem short_client_id_rejected:
  assumes "parsed_body w event = Some (PDict d)"
    and "map_of d ''client_id'' = Some (PStr raw)"
    and "length (strip (lower raw)) < 2"
  shows "statusCode (fst (lambda_handler w event)) = 400 \<and>
         body (fst (lambda_handler w event)) =
           PDict [(''error'', PStr ''client_id must be at least 2 characters long'')] \<and>
         calls (snd (lambda_handler w event)) = [] \<and>
         lambda_handler w event =
           (error_reply 400 ''client_id must be at least 2 characters long'',
            \<lparr>calls = [], log = []\<rparr>)"
  using short_id_run [OF assms]
  by (simp add: error_reply_fields)

theorem short_client_id_rejected_witness:
  "parsed_body (tenant_world '' A '') (tenant_event '' A '') = Some (PDict [(''client_id'', PStr '' A '')]) \<and>
   map_of [(''client_id'', PStr '' A '')] ''client_id'' = Some (PStr '' A '') \<and>
   length (strip (lower '' A '')) < 2 \<and>
   statusCode (fst (lambda_handler (tenant_world '' A '') (tenant_event '' A ''))) = 400 \<and>
   body (fst (lambda_handler (tenant_world '' A '') (tenant_event '' A ''))) =
     PDict [(''error'', PStr ''client_id must be at least 2 characters long'')] \<and>
   calls (snd (lambda_handler (tenant_world '' A '') (tenant_event '' A ''))) = [] \<and>
   lambda_handler (tenant_world '' A '') (tenant_event '' A '') =
     (error_reply 400 ''client_id must be at least 2 characters long'', \<lparr>calls = [], log = []\<rparr>)"
proof -
  have h2: "map_of [(''client_id'', PStr '' A '')] ''client_id'' = Some (PStr '' A '')"
    by simp
  have h3: "length (strip (lower '' A '')) < 2"
    by (simp add: strip_def lower_def lower_char_def isspace_def)
  show ?thesis
    using parsed_body_tenant [of "'' A ''"] h2 h3
      short_client_id_rejected [OF parsed_body_tenant h2 h3]
    by blast
qed

lemma missing_key_run:
  assumes "parsed_body w event = Some (PDict d)"
    and "map_of d ''client_id'' = None"
  shows "lambda_handler w event =
           (error_reply 400 (''Missing required field: '' @ quoted ''client_id''),
            \<lparr>calls = [], log = [Line (''Missing required field: '' @ quoted ''client_id'')]\<rparr>)"
  using handler_no_client_id [OF get_client_id_missing_key [OF assms]]
  by (simp add: except_clauses_def print_def)

text \<open>
  C10, as amended. When the body parses to a JSON object that has no \<^verbatim>\<open>client_id\<close> key,
  the handler answers HTTP 400 with \<^verbatim>\<open>Missing required field: 'client_id'\<close> and has
  called no service.
\<close>

theorem missing_client_id_key:
  assumes "parsed_body w event = Some (PDict d)"
    and "map_of d ''client_id'' = None"
  shows "statusCode (fst (lambda_handler w event)) = 400 \<and>
         body (fst (lambda_handler w event)) =
           PDict [(''error'', PStr (''Missing required field: '' @ [CHR 0x27] @ ''client_id'' @
                                    [CHR 0x27]))] \<and>
         calls (snd (lambda_handler w event)) = [] \<and>
         lambda_handler w event =
           (error_reply 400 (''Missing required field: '' @ quoted ''client_id''),
            \<lparr>calls = [], log = [Line (''Missing required field: '' @ quoted ''client_id'')]\<rparr>)"
  using missing_key_run [OF assms]
  by (simp add: error_reply_fields quoted_def)

theorem missing_client_id_key_witness:
  "parsed_body (sample_world ''{}'' (PDict [])) (sample_event ''{}'') = Some (PDict []) \<and>
   map_of ([] :: (string \<times> pyval) list) ''client_id'' = None \<and>
   lambda_handler (sample_world ''{}'' (PDict [])) (sample_event ''{}'') =
     (error_reply 400 (''Missing required field: '' @ [CHR 0x27] @ ''client_id'' @ [CHR 0x27]),
      \<lparr>calls = [],
       log = [Line (''Missing required field: '' @ [CHR 0x27] @ ''client_id'' @ [CHR 0x27])]\<rparr>)"
proof -
  have h1: "parsed_body (sample_world ''{}'' (PDict [])) (sample_event ''{}'') = Some (PDict [])"
    by (simp add: parsed_body_def sample_world_def sample_event_def)
  have h2: "map_of ([] :: (string \<times> pyval) list) ''client_id'' = None"
    by simp
  show ?thesis
    using h1 h2 missing_client_id_key [OF h1 h2] by (simp add: quoted_def)
qed

text \<open>
  C10 as stated speaks of every valid JSON body without the key. The body \<^verbatim>\<open>[]\<close> is valid
  JSON and has no such key; subscripting the list raises TypeError, which the last
  \<^verbatim>\<open>except\<close> clause turns into HTTP 500.
\<close>

theorem missing_client_id_key_counterexample:
  "parsed_body (sample_world ''[]'' (PList [])) (sample_event ''[]'') = Some (PList []) \<and>
   lambda_handler (sample_world ''[]'' (PList [])) (sample_event ''[]'') =
     (error_reply 500 ''Internal server error: list indices must be integers or slices, not str'',
      \<lparr>calls = [],
       log = [Line ''Error: list indices must be integers or slices, not str'']\<rparr>) \<and>
   statusCode (fst (lambda_handler (sample_world ''[]'' (PList [])) (sample_event ''[]''))) \<noteq> 400"
  by (simp add: parsed_body_def sample_world_def sample_event_def lambda_handler_def try_body_def
        get_client_id_def getitem_def loads_def except_clauses_def print_def error_reply_def reply_def)

lemma bad_characters_run:
  assumes "parsed_body w event = Some (PDict d)"
    and "map_of d ''client_id'' = Some (PStr raw)"
    and "2 \<le> length (strip (lower raw))"
    and "c \<in> set (strip (lower raw))"
    and "((of_char c :: nat) < 128 \<and> \<not> in_charset c) \<or>
         (c \<noteq> CHR ''-'' \<and> c \<noteq> CHR ''_'' \<and> \<not> isalnum_char c)"
  shows "lambda_handler w event =
           (error_reply 400
              ''client_id can only contain letters, numbers, hyphens and underscores'',
            \<lparr>calls = [], log = []\<rparr>)"
proof -
  have bad: "c \<noteq> CHR ''-'' \<and> c \<noteq> CHR ''_'' \<and> \<not> isalnum_char c"
    using assms(5) outside_charset_not_alnum [OF assms(4)] by blast
  then have "\<not> isalnum (replace ''_'' [] (replace ''-'' [] (strip (lower raw))))"
    using isalnum_filter_False [OF assms(4)] by simp
  with assms(3) have "validate (strip (lower raw)) =
      Some (error_reply 400 ''client_id can only contain letters, numbers, hyphens and underscores'')"
    by (auto simp: validate_def)
  with get_client_id_of_body [OF assms(1,2)] show ?thesis
    by (rule handler_invalid)
qed

text \<open>
  C4, as amended. When the normalized identifier has at least two characters and one of
  them is an ASCII character outside \<^verbatim>\<open>[a-z0-9_-]\<close>, or any character other than hyphen
  and underscore that \<^verbatim>\<open>str.isalnum\<close> does not accept, the handler answers HTTP 400 with
  the invalid-characters message and has called no service.
\<close>

theorem invalid_characters_rejected:
  assumes "parsed_body w event = Some (PDict d)"
    and "map_of d ''client_id'' = Some (PStr raw)"
    and "2 \<le> length (strip (lower raw))"
    and "c \<in> set (strip (lower raw))"
    and "((of_char c :: nat) < 128 \<and> \<not> in_charset c) \<or>
         (c \<noteq> CHR ''-'' \<and> c \<noteq> CHR ''_'' \<and> \<not> isalnum_char c)"
  shows "statusCode (fst (lambda_handler w event)) = 400 \<and>
         body (fst (lambda_handler w event)) =
           PDict [(''error'',
                   PStr ''client_id can only contain letters, numbers, hyphens and underscores'')] \<and>
         calls (snd (lambda_handler w event)) = [] \<and>
         lambda_handler w event =
           (error_reply 400
              ''client_id can only contain letters, numbers, hyphens and underscores'',
            \<lparr>calls = [], log = []\<rparr>)"
  using bad_characters_run [OF assms]
  by (simp add: error_reply_fields)

theorem invalid_characters_rejected_witness:
  "parsed_body (tenant_world ''Acme 01'') (tenant_event ''Acme 01'') =
     Some (PDict [(''client_id'', PStr ''Acme 01'')]) \<and>
   map_of [(''client_id'', PStr ''Acme 01'')] ''client_id'' = Some (PStr ''Acme 01'') \<and>
   2 \<le> length (strip (lower ''Acme 01'')) \<and>
   CHR '' '' \<in> set (strip (lower ''Acme 01'')) \<and>
   (((of_char (CHR '' '') :: nat) < 128 \<and> \<not> in_charset (CHR '' '')) \<or>
    (CHR '' '' \<noteq> CHR ''-'' \<and> CHR '' '' \<noteq> CHR ''_'' \<and> \<not> isalnum_char (CHR '' ''))) \<and>
   lambda_handler (tenant_world ''Acme 01'') (tenant_event ''Acme 01'') =
     (error_reply 400 ''client_id can only contain letters, numbers, hyphens and underscores'',
      \<lparr>calls = [], log = []\<rparr>)"
proof -
  have h2: "map_of [(''client_id'', PStr ''Acme 01'')] ''client_id'' = Some (PStr ''Acme 01'')"
    by simp
  have n: "strip (lower ''Acme 01'') = ''acme 01''"
    by code_simp
  have h3: "2 \<le> length (strip (lower ''Acme 01''))"
    by (simp add: n)
  have h4: "CHR '' '' \<in> set (strip (lower ''Acme 01''))"
    by (simp add: n)
  have h5: "((of_char (CHR '' '') :: nat) < 128 \<and> \<not> in_charset (CHR '' '')) \<or>
    (CHR '' '' \<noteq> CHR ''-'' \<and> CHR '' '' \<noteq> CHR ''_'' \<and> \<not> isalnum_char (CHR '' ''))"
    by (simp add: in_charset_def)
  show ?thesis
    using parsed_body_tenant h2 h3 h4 h5
      invalid_characters_rejected [OF parsed_body_tenant h2 h3 h4 h5]
    by simp
qed

text \<open>
  C4 as stated fails in two places. \<^verbatim>\<open>str.isalnum\<close> accepts letters and digits beyond
  ASCII: the identifier made of \<^verbatim>\<open>Caf\<close> and U+00C9 (capital E with acute) normalizes to
  \<^verbatim>\<open>caf\<close> and U+00E9, a character outside \<^verbatim>\<open>[a-z0-9_-]\<close>, and the handler provisions
  it (HTTP 200, the services are called). And the length test comes first: the
  one-character identifier \<^verbatim>\<open>!\<close> gets the minimum-length message, not the
  invalid-characters one.
\<close>

theorem invalid_characters_counterexample:
  "CHR 0xE9 \<in> set (strip (lower (''Caf'' @ [CHR 0xC9]))) \<and> \<not> in_charset (CHR 0xE9) \<and>
   2 \<le> length (strip (lower (''Caf'' @ [CHR 0xC9]))) \<and>
   statusCode (fst (lambda_handler (tenant_world (''Caf'' @ [CHR 0xC9]))
                      (tenant_event (''Caf'' @ [CHR 0xC9])))) = 200 \<and>
   hd (calls (snd (lambda_handler (tenant_world (''Caf'' @ [CHR 0xC9]))
                      (tenant_event (''Caf'' @ [CHR 0xC9]))))) = ListKnowledgeBases \<and>
   CHR ''!'' \<in> set (strip (lower ''!'')) \<and> \<not> in_charset (CHR ''!'') \<and>
   fst (lambda_handler (tenant_world ''!'') (tenant_event ''!'')) =
     error_reply 400 ''client_id must be at least 2 characters long''"
  by code_simp

lemma missing_variable_run:
  assumes "get_client_id w event = Inr client_id"
    and "validate client_id = None"
    and "find (\<lambda>k. map_of (environ w) k = None) config_keys = Some k"
  shows "lambda_handler w event =
           (error_reply 400 (''Missing required field: '' @ quoted k),
            \<lparr>calls = [], log = [Line (''Missing required field: '' @ quoted k)]\<rparr>)"
proof -
  have "read_config w = Inl (KeyError (quoted k))"
    using assms(3)
    by (auto simp: config_keys_def read_config_def getitem_def split: option.splits if_splits)
  with assms(1,2) show ?thesis
    by (simp add: lambda_handler_def try_body_def except_clauses_def print_def)
qed

text \<open>
  C3, as amended. When the request passes validation and a required variable is absent
  from the environment, the \<^verbatim>\<open>KeyError\<close> of the first absent one (in the order of lines
  39 to 44) reaches the outer \<^verbatim>\<open>except KeyError\<close> clause: the handler answers HTTP 400
  with \<^verbatim>\<open>Missing required field: '<NAME>'\<close>, and has called no service.
\<close>

theorem missing_configuration_reported:
  assumes "get_client_id w event = Inr client_id"
    and "validate client_id = None"
    and "find (\<lambda>k. map_of (environ w) k = None) config_keys = Some k"
  shows "statusCode (fst (lambda_handler w event)) = 400 \<and>
         body (fst (lambda_handler w event)) =
           PDict [(''error'', PStr (''Missing required field: '' @ [CHR 0x27] @ k @ [CHR 0x27]))] \<and>
         calls (snd (lambda_handler w event)) = [] \<and>
         lambda_handler w event =
           (error_reply 400 (''Missing required field: '' @ quoted k),
            \<lparr>calls = [], log = [Line (''Missing required field: '' @ quoted k)]\<rparr>)"
  using missing_variable_run [OF assms]
  by (simp add: error_reply_fields quoted_def)

theorem missing_configuration_reported_witness:
  "get_client_id without_region (tenant_event ''acme'') = Inr ''acme'' \<and>
   validate ''acme'' = None \<and>
   find (\<lambda>k. map_of (environ without_region) k = None) config_keys = Some ''REGION'' \<and>
   lambda_handler without_region (tenant_event ''acme'') =
     (error_reply 400 (''Missing required field: '' @ quoted ''REGION''),
      \<lparr>calls = [], log = [Line (''Missing required field: '' @ quoted ''REGION'')]\<rparr>)"
proof -
  have h1: "get_client_id without_region (tenant_event ''acme'') = Inr ''acme''"
    by code_simp
  have h2: "validate ''acme'' = None"
    by code_simp
  have h3: "find (\<lambda>k. map_of (environ without_region) k = None) config_keys = Some ''REGION''"
    by code_simp
  show ?thesis
    using h1 h2 h3 missing_configuration_reported [OF h1 h2 h3] by simp
qed

text \<open>
  C3 as stated promises a 500-class status. With \<^verbatim>\<open>REGION\<close> absent and a valid request
  the status is 400.
\<close>

theorem missing_configuration_counterexample:
  "map_of (environ without_region) ''REGION'' = None \<and>
   fst (lambda_handler without_region (tenant_event ''acme'')) =
     error_reply 400 (''Missing required field: '' @ [CHR 0x27] @ ''REGION'' @ [CHR 0x27]) \<and>
   \<not> 500 \<le> statusCode (fst (lambda_handler without_region (tenant_event ''acme'')))"
  by code_simp




text \<open>
  C7. When the run reaches the index step and the index \<^verbatim>\<open><tenant>_index\<close> exists, the
  call that follows the existence check is the creation of the knowledge base, no
  index-creation call is made anywhere in the run, and the skip is printed.
\<close>

theorem existing_index_skipped:
  assumes "accepted w event client_id cfg"
    and "no_duplicate w client_id"
    and "folder_written w cfg client_id"
    and "indices_exists w (client_id @ ''_index'') = Inr True"
  shows "(\<exists>cs. calls (snd (lambda_handler w event)) =
                [ListKnowledgeBases, put_readme cfg client_id,
                 IndexExists (client_id @ ''_index''),
                 CreateKnowledgeBase (knowledge_base_request cfg client_id)] @ cs \<and>
              (\<forall>c\<in>set cs. \<not> is_create_index c)) \<and>
         filter is_create_index (calls (snd (lambda_handler w event))) = [] \<and>
         Line (''Index '' @ client_id @ ''_index'' @ '' already exists, skipping creation'')
           \<in> set (log (snd (lambda_handler w event)))"
proof -
  have ready: "index_ready w client_id"
    using assms(4) by (simp add: index_ready_def)
  have ic: "index_calls w client_id = [IndexExists (client_id @ ''_index'')]"
    using assms(4) by (simp add: index_calls_def)
  obtain s1 where s1: "duplicate_check w cfg client_id (started cfg client_id) =
      folder_step w cfg client_id s1" "calls s1 = [ListKnowledgeBases]"
    using duplicate_check_passes [OF assms(2), of cfg "started cfg client_id"]
    by (auto simp: started_def)
  obtain s2 where s2: "folder_step w cfg client_id s1 = index_step w cfg client_id s2"
      "calls s2 = calls s1 @ [put_readme cfg client_id]"
    using folder_step_passes [OF assms(3), of s1] by auto
  define s3 where "s3 =
     print (''Index '' @ client_id @ ''_index'' @ '' already exists, skipping creation'')
       (invoke (IndexExists (client_id @ ''_index''))
          (print (''Creating OpenSearch index: '' @ client_id @ ''_index'') s2))"
  have run: "lambda_handler w event = except_clauses (knowledge_base_step w cfg client_id s3)"
    using handler_accepted [OF assms(1)] s1 s2 index_step_skips [OF assms(4), of cfg s2]
    by (simp add: s3_def)
  have c3: "calls s3 = [ListKnowledgeBases, put_readme cfg client_id,
                         IndexExists (client_id @ ''_index'')]"
    using s1 s2 by (simp add: s3_def)
  obtain cs where cs: "calls (snd (knowledge_base_step w cfg client_id s3)) =
      calls s3 @ CreateKnowledgeBase (knowledge_base_request cfg client_id) # cs"
      "\<forall>c\<in>set cs. \<not> is_create_index c"
    using knowledge_base_step_calls [of w cfg client_id s3] by blast
  have calls_eq: "calls (snd (lambda_handler w event)) =
      [ListKnowledgeBases, put_readme cfg client_id, IndexExists (client_id @ ''_index''),
       CreateKnowledgeBase (knowledge_base_request cfg client_id)] @ cs"
    using run cs(1) c3 by (simp add: calls_except_clauses)
  have none: "filter is_create_index (calls (snd (lambda_handler w event))) = []"
    using cs(2) by (simp add: calls_eq is_create_index_def put_readme_def filter_empty_conv)
  have "extends s3 (snd (lambda_handler w event))"
    unfolding run
    by (intro except_clauses_extends knowledge_base_step_extends extends_refl)
  then obtain ls where "log (snd (lambda_handler w event)) = log s3 @ ls"
    by (auto simp: extends_def)
  then have logged:
    "Line (''Index '' @ client_id @ ''_index'' @ '' already exists, skipping creation'')
       \<in> set (log (snd (lambda_handler w event)))"
    by (simp add: s3_def)
  from calls_eq cs(2) none logged show ?thesis by blast
qed

theorem existing_index_skipped_witness:
  "accepted indexed_world (tenant_event ''Acme-01'') ''acme-01'' sample_config \<and>
   no_duplicate indexed_world ''acme-01'' \<and>
   folder_written indexed_world sample_config ''acme-01'' \<and>
   indices_exists indexed_world (''acme-01'' @ ''_index'') = Inr True \<and>
   filter is_create_index (calls (snd (lambda_handler indexed_world (tenant_event ''Acme-01'')))) = [] \<and>
   (\<exists>cs. calls (snd (lambda_handler indexed_world (tenant_event ''Acme-01''))) =
      [ListKnowledgeBases, put_readme sample_config ''acme-01'',
       IndexExists (''acme-01'' @ ''_index''),
       CreateKnowledgeBase (knowledge_base_request sample_config ''acme-01'')] @ cs)"
proof -
  have h2: "no_duplicate indexed_world ''acme-01''"
    by code_simp
  have h3: "folder_written indexed_world sample_config ''acme-01''"
    by code_simp
  have h4: "indices_exists indexed_world (''acme-01'' @ ''_index'') = Inr True"
    by (simp add: indexed_world_def)
  show ?thesis
    using accepted_indexed_world h2 h3 h4
      existing_index_skipped [OF accepted_indexed_world h2 h3 h4]
    by blast
qed

lemma compensation_run:
  assumes "accepted w event client_id cfg"
    and "no_duplicate w client_id"
    and "folder_written w cfg client_id"
    and "index_ready w client_id"
    and "create_knowledge_base w (knowledge_base_request cfg client_id) = Inr kb_id"
    and "create_data_source w (data_source_request cfg client_id kb_id) = Inl (ClientError m)"
  shows "fst (lambda_handler w event) =
           error_reply 500 (''Failed to create Data Source: '' @ m) \<and>
         calls (snd (lambda_handler w event)) =
           ListKnowledgeBases # put_readme cfg client_id # index_calls w client_id @
           [CreateKnowledgeBase (knowledge_base_request cfg client_id),
            CreateDataSource (data_source_request cfg client_id kb_id),
            DeleteKnowledgeBase kb_id] \<and>
         (\<forall>e. delete_knowledge_base w kb_id = Some e \<longrightarrow>
            last (log (snd (lambda_handler w event))) = Line (''Failed to cleanup KB: '' @ str e)) \<and>
         (\<forall>d. fst (lambda_handler (w\<lparr>delete_knowledge_base := d\<rparr>) event) =
            error_reply 500 (''Failed to create Data Source: '' @ m))"
proof -
  obtain s where s: "lambda_handler w event = except_clauses (data_source_step w cfg client_id kb_id s)"
      "calls s = ListKnowledgeBases # put_readme cfg client_id # index_calls w client_id @
                 [CreateKnowledgeBase (knowledge_base_request cfg client_id)]"
    using reach_data_source_step [OF assms(1-5)] by blast
  note ds = data_source_step_compensates [OF assms(6), where s = s]
  have resp: "fst (lambda_handler w event) =
      error_reply 500 (''Failed to create Data Source: '' @ m)"
    by (rule data_source_failure_response [OF assms])
  have cls: "calls (snd (lambda_handler w event)) =
      ListKnowledgeBases # put_readme cfg client_id # index_calls w client_id @
      [CreateKnowledgeBase (knowledge_base_request cfg client_id),
       CreateDataSource (data_source_request cfg client_id kb_id),
       DeleteKnowledgeBase kb_id]"
    using s ds(2) by (simp add: calls_except_clauses)
  have lg: "\<forall>e. delete_knowledge_base w kb_id = Some e \<longrightarrow>
      last (log (snd (lambda_handler w event))) = Line (''Failed to cleanup KB: '' @ str e)"
    using s(1) ds(1) ds(3) by (simp add: log_except_clauses)
  have any: "\<forall>d. fst (lambda_handler (w\<lparr>delete_knowledge_base := d\<rparr>) event) =
      error_reply 500 (''Failed to create Data Source: '' @ m)"
  proof
    fix d
    show "fst (lambda_handler (w\<lparr>delete_knowledge_base := d\<rparr>) event) =
        error_reply 500 (''Failed to create Data Source: '' @ m)"
      by (rule data_source_failure_response [where cfg = cfg and client_id = client_id and kb_id = kb_id])
         (simp_all add: accepted_delete_update no_duplicate_delete_update
            folder_written_delete_update index_ready_delete_update assms)
  qed
  from resp cls lg any show ?thesis by blast
qed

text \<open>
  C1, as amended. When the knowledge base has been created and the registration of the
  data source raises \<^verbatim>\<open>ClientError\<close>, the handler's last call deletes the knowledge base
  it has just created, and it answers HTTP 500 with \<^verbatim>\<open>Failed to create Data Source\<close> and
  the service's message. A failing delete is printed last, and whatever the delete does,
  the response is the same.
\<close>

theorem data_source_failure_compensated:
  assumes "accepted w event client_id cfg"
    and "no_duplicate w client_id"
    and "folder_written w cfg client_id"
    and "index_ready w client_id"
    and "create_knowledge_base w (knowledge_base_request cfg client_id) = Inr kb_id"
    and "create_data_source w (data_source_request cfg client_id kb_id) = Inl (ClientError m)"
  shows "statusCode (fst (lambda_handler w event)) = 500 \<and>
         body (fst (lambda_handler w event)) =
           PDict [(''error'', PStr (''Failed to create Data Source: '' @ m))] \<and>
         (\<forall>d. statusCode (fst (lambda_handler (w\<lparr>delete_knowledge_base := d\<rparr>) event)) = 500 \<and>
              body (fst (lambda_handler (w\<lparr>delete_knowledge_base := d\<rparr>) event)) =
                PDict [(''error'', PStr (''Failed to create Data Source: '' @ m))]) \<and>
         fst (lambda_handler w event) =
           error_reply 500 (''Failed to create Data Source: '' @ m) \<and>
         calls (snd (lambda_handler w event)) =
           ListKnowledgeBases # put_readme cfg client_id # index_calls w client_id @
           [CreateKnowledgeBase (knowledge_base_request cfg client_id),
            CreateDataSource (data_source_request cfg client_id kb_id),
            DeleteKnowledgeBase kb_id] \<and>
         (\<forall>e. delete_knowledge_base w kb_id = Some e \<longrightarrow>
            last (log (snd (lambda_handler w event))) = Line (''Failed to cleanup KB: '' @ str e)) \<and>
         (\<forall>d. fst (lambda_handler (w\<lparr>delete_knowledge_base := d\<rparr>) event) =
            error_reply 500 (''Failed to create Data Source: '' @ m))"
proof -
  note run = compensation_run [OF assms]
  from run have r: "fst (lambda_handler w event) =
      error_reply 500 (''Failed to create Data Source: '' @ m)"
    and rd: "\<And>d. fst (lambda_handler (w\<lparr>delete_knowledge_base := d\<rparr>) event) =
      error_reply 500 (''Failed to create Data Source: '' @ m)"
    by blast+
  have "statusCode (fst (lambda_handler w event)) = 500"
    and "body (fst (lambda_handler w event)) =
           PDict [(''error'', PStr (''Failed to create Data Source: '' @ m))]"
    by (simp_all add: r error_reply_fields)
  moreover have "\<forall>d. statusCode (fst (lambda_handler (w\<lparr>delete_knowledge_base := d\<rparr>) event)) = 500 \<and>
      body (fst (lambda_handler (w\<lparr>delete_knowledge_base := d\<rparr>) event)) =
        PDict [(''error'', PStr (''Failed to create Data Source: '' @ m))]"
    by (simp add: rd error_reply_fields)
  ultimately show ?thesis
    using run by blast
qed

theorem data_source_failure_compensated_witness:
  "accepted denied_world (tenant_event ''Acme-01'') ''acme-01'' sample_config \<and>
   no_duplicate denied_world ''acme-01'' \<and>
   folder_written denied_world sample_config ''acme-01'' \<and>
   index_ready denied_world ''acme-01'' \<and>
   create_knowledge_base denied_world (knowledge_base_request sample_config ''acme-01'') =
     Inr ''KB0000000A'' \<and>
   create_data_source denied_world (data_source_request sample_config ''acme-01'' ''KB0000000A'') =
     Inl (ClientError ''An error occurred (AccessDeniedException) when calling the CreateDataSource operation: denied'') \<and>
   delete_knowledge_base denied_world ''KB0000000A'' =
     Some (OtherException ''Read timeout on endpoint URL'') \<and>
   statusCode (fst (lambda_handler denied_world (tenant_event ''Acme-01''))) = 500 \<and>
   fst (lambda_handler denied_world (tenant_event ''Acme-01'')) =
     error_reply 500 (''Failed to create Data Source: '' @ ''An error occurred (AccessDeniedException) when calling the CreateDataSource operation: denied'') \<and>
   calls (snd (lambda_handler denied_world (tenant_event ''Acme-01''))) =
     ListKnowledgeBases # put_readme sample_config ''acme-01'' # index_calls denied_world ''acme-01'' @
     [CreateKnowledgeBase (knowledge_base_request sample_config ''acme-01''),
      CreateDataSource (data_source_request sample_config ''acme-01'' ''KB0000000A''),
      DeleteKnowledgeBase ''KB0000000A''] \<and>
   last (log (snd (lambda_handler denied_world (tenant_event ''Acme-01'')))) =
     Line (''Failed to cleanup KB: '' @ str (OtherException ''Read timeout on endpoint URL''))"
proof -
  have h2: "no_duplicate denied_world ''acme-01''"
    by code_simp
  have h3: "folder_written denied_world sample_config ''acme-01''"
    by code_simp
  have h4: "index_ready denied_world ''acme-01''"
    by code_simp
  have h5: "create_knowledge_base denied_world (knowledge_base_request sample_config ''acme-01'') =
     Inr ''KB0000000A''"
    by (simp add: denied_world_def tenant_world_def sample_world_def)
  have h6: "create_data_source denied_world (data_source_request sample_config ''acme-01'' ''KB0000000A'') =
     Inl (ClientError ''An error occurred (AccessDeniedException) when calling the CreateDataSource operation: denied'')"
    by (simp add: denied_world_def)
  have h7: "delete_knowledge_base denied_world ''KB0000000A'' =
     Some (OtherException ''Read timeout on endpoint URL'')"
    by (simp add: denied_world_def)
  show ?thesis
    using accepted_denied_world h2 h3 h4 h5 h6 h7
      data_source_failure_compensated [OF accepted_denied_world h2 h3 h4 h5 h6]
    by blast
qed

text \<open>
  C1 as stated speaks of every failure of the registration. The clause at line 216
  catches \<^verbatim>\<open>ClientError\<close> only: when the registration fails with another exception
  (botocore's connection errors are not \<^verbatim>\<open>ClientError\<close>s), the outer clause answers
  \<^verbatim>\<open>Internal server error\<close> and no delete is made.
\<close>

theorem data_source_failure_counterexample:
  "create_knowledge_base unreachable_world (knowledge_base_request sample_config ''acme-01'') =
     Inr ''KB0000000A'' \<and>
   create_data_source unreachable_world
       (data_source_request sample_config ''acme-01'' ''KB0000000A'') =
     Inl (OtherException ''Could not connect to the endpoint URL'') \<and>
   fst (lambda_handler unreachable_world (tenant_event ''Acme-01'')) =
     error_reply 500 ''Internal server error: Could not connect to the endpoint URL'' \<and>
   last (calls (snd (lambda_handler unreachable_world (tenant_event ''Acme-01'')))) =
     CreateDataSource (data_source_request sample_config ''acme-01'' ''KB0000000A'') \<and>
   DeleteKnowledgeBase ''KB0000000A''
     \<notin> set (calls (snd (lambda_handler unreachable_world (tenant_event ''Acme-01''))))"
  by code_simp

text \<open>
  C6, as amended. When the listing of the duplicate check raises \<^verbatim>\<open>ClientError\<close>, the
  handler prints the warning and carries on with the storage step and what follows it:
  the second call of the run writes the tenant's marker object, and the listing failure
  itself produces no response.
\<close>

theorem listing_failure_not_fatal:
  assumes "accepted w event client_id cfg"
    and "list_knowledge_bases w = Inl (ClientError m)"
  shows "lambda_handler w event =
           except_clauses (folder_step w cfg client_id
             \<lparr>calls = [ListKnowledgeBases],
              log = log (started cfg client_id) @
                    [Line (''Warning checking existing KBs: '' @ m)]\<rparr>) \<and>
         (\<exists>cs. calls (snd (lambda_handler w event)) =
                 ListKnowledgeBases # put_readme cfg client_id # cs) \<and>
         Line (''Warning checking existing KBs: '' @ m) \<in> set (log (snd (lambda_handler w event)))"
proof -
  define s1 where "s1 =
    \<lparr>calls = [ListKnowledgeBases],
     log = log (started cfg client_id) @ [Line (''Warning checking existing KBs: '' @ m)]\<rparr>"
  have run: "lambda_handler w event = except_clauses (folder_step w cfg client_id s1)"
    using handler_accepted [OF assms(1)] assms(2)
    by (simp add: duplicate_check_def Let_def s1_def started_def invoke_def print_def)
  obtain cs where "calls (snd (folder_step w cfg client_id s1)) =
      calls s1 @ put_readme cfg client_id # cs"
    using folder_step_first_call [of w cfg client_id s1] by blast
  then have cls: "calls (snd (lambda_handler w event)) =
      ListKnowledgeBases # put_readme cfg client_id # cs"
    by (simp add: run calls_except_clauses s1_def)
  have "extends s1 (snd (lambda_handler w event))"
    unfolding run
    by (intro except_clauses_extends folder_step_extends extends_refl)
  then obtain ls where "log (snd (lambda_handler w event)) = log s1 @ ls"
    by (auto simp: extends_def)
  then have lg: "Line (''Warning checking existing KBs: '' @ m)
      \<in> set (log (snd (lambda_handler w event)))"
    by (simp add: s1_def)
  from run cls lg show ?thesis
    unfolding s1_def by blast
qed

theorem listing_failure_not_fatal_witness:
  "accepted throttled_world (tenant_event ''Acme-01'') ''acme-01'' sample_config \<and>
   list_knowledge_bases throttled_world =
     Inl (ClientError ''An error occurred (ThrottlingException) when calling the ListKnowledgeBases operation: Rate exceeded'') \<and>
   (\<exists>cs. calls (snd (lambda_handler throttled_world (tenant_event ''Acme-01''))) =
      ListKnowledgeBases # put_readme sample_config ''acme-01'' # cs) \<and>
   Line (''Warning checking existing KBs: '' @ ''An error occurred (ThrottlingException) when calling the ListKnowledgeBases operation: Rate exceeded'')
     \<in> set (log (snd (lambda_handler throttled_world (tenant_event ''Acme-01''))))"
proof -
  have h2: "list_knowledge_bases throttled_world =
     Inl (ClientError ''An error occurred (ThrottlingException) when calling the ListKnowledgeBases operation: Rate exceeded'')"
    by (simp add: throttled_world_def)
  show ?thesis
    using accepted_throttled_world h2
      listing_failure_not_fatal [OF accepted_throttled_world h2]
    by blast
qed

text \<open>
  C6 as stated speaks of every failure of the listing. The clause at line 84 catches
  \<^verbatim>\<open>ClientError\<close> only: a listing that fails with another exception (botocore's
  connection errors are not \<^verbatim>\<open>ClientError\<close>s) ends the request with HTTP 500, and the
  listing is the only call made.
\<close>

theorem listing_failure_counterexample:
  "accepted offline_world (tenant_event ''Acme-01'') ''acme-01'' sample_config \<and>
   list_knowledge_bases offline_world =
     Inl (OtherException ''Could not connect to the endpoint URL'') \<and>
   lambda_handler offline_world (tenant_event ''Acme-01'') =
     (error_reply 500 ''Internal server error: Could not connect to the endpoint URL'',
      \<lparr>calls = [ListKnowledgeBases],
       log = log (started sample_config ''acme-01'') @
             [Line ''Error: Could not connect to the endpoint URL'']\<rparr>)"
  by code_simp

lemma acme_run:
  assumes "map_of event ''body'' = Some (PStr (body_text ''Acme-01''))"
    and "json_loads w (body_text ''Acme-01'') = Inr (PDict [(''client_id'', PStr ''Acme-01'')])"
    and "read_config w = Inr cfg"
    and "client_setup w (region cfg) (host cfg) = None"
    and "list_knowledge_bases w = Inr existing_kbs"
    and "\<forall>kb\<in>set existing_kbs. name kb \<noteq> ''kb-acme-01''"
    and "folder_written w cfg ''acme-01''"
    and "index_ready w ''acme-01''"
    and "create_knowledge_base w (knowledge_base_request cfg ''acme-01'') = Inr kb_id"
    and "create_data_source w (data_source_request cfg ''acme-01'' kb_id) = Inr data_source_id"
  shows "get_client_id w event = Inr ''acme-01'' \<and>
         fst (lambda_handler w event) =
           reply 200 (success_response w cfg ''acme-01'' kb_id data_source_id) \<and>
         map_of (success_response w cfg ''acme-01'' kb_id data_source_id) ''success'' =
           Some (PBool True) \<and>
         map_of (success_response w cfg ''acme-01'' kb_id data_source_id) ''client_id'' =
           Some (PStr ''acme-01'') \<and>
         map_of (success_response w cfg ''acme-01'' kb_id data_source_id) ''opensearch_index'' =
           Some (PStr ''acme-01_index'') \<and>
         map_of (success_response w cfg ''acme-01'' kb_id data_source_id) ''status'' =
           Some (PStr ''created'') \<and>
         calls (snd (lambda_handler w event)) =
           [ListKnowledgeBases,
            PutObject (s3_bucket_name cfg) ''acme-01/README.md''
              ''# Knowledge Base para acme-01'' ''text/markdown'',
            IndexExists ''acme-01_index''] @
           (if indices_exists w ''acme-01_index'' = Inr True then []
            else [CreateIndex ''acme-01_index'' index_body]) @
           [CreateKnowledgeBase (knowledge_base_request cfg ''acme-01''),
            CreateDataSource (data_source_request cfg ''acme-01'' kb_id)] \<and>
         kb_args_name (knowledge_base_request cfg ''acme-01'') = ''kb-acme-01'' \<and>
         vectorIndexName (knowledge_base_request cfg ''acme-01'') = ''acme-01_index'' \<and>
         inclusionPrefixes (data_source_request cfg ''acme-01'' kb_id) = [''acme-01/'']"
proof -
  have norm: "strip (lower ''Acme-01'') = ''acme-01''"
    by code_simp
  have pb: "parsed_body w event = Some (PDict [(''client_id'', PStr ''Acme-01'')])"
    using assms(1,2) by (simp add: parsed_body_def)
  have cid: "get_client_id w event = Inr ''acme-01''"
    using get_client_id_of_body [OF pb, of "''Acme-01''"] norm by simp
  have valid: "validate ''acme-01'' = None"
    by code_simp
  have acc: "accepted w event ''acme-01'' cfg"
    using cid valid assms(3,4) by (simp add: accepted_def)
  have "find (\<lambda>kb. name kb = ''kb-'' @ ''acme-01'') existing_kbs = None"
    using assms(6) by (auto simp: find_None_iff)
  then have nodup: "no_duplicate w ''acme-01''"
    using assms(5) by (simp add: no_duplicate_def)
  obtain s where s: "lambda_handler w event =
        except_clauses (data_source_step w cfg ''acme-01'' kb_id s)"
      "calls s = ListKnowledgeBases # put_readme cfg ''acme-01'' # index_calls w ''acme-01'' @
                 [CreateKnowledgeBase (knowledge_base_request cfg ''acme-01'')]"
    using reach_data_source_step [OF acc nodup assms(7,8,9)] by blast
  note ds = data_source_step_succeeds [OF assms(10), where s = s]
  have resp: "fst (lambda_handler w event) =
      reply 200 (success_response w cfg ''acme-01'' kb_id data_source_id)"
    using s(1) ds(1) by (simp add: fst_except_clauses)
  have cls: "calls (snd (lambda_handler w event)) =
      [ListKnowledgeBases,
       PutObject (s3_bucket_name cfg) ''acme-01/README.md''
         ''# Knowledge Base para acme-01'' ''text/markdown'',
       IndexExists ''acme-01_index''] @
      (if indices_exists w ''acme-01_index'' = Inr True then []
       else [CreateIndex ''acme-01_index'' index_body]) @
      [CreateKnowledgeBase (knowledge_base_request cfg ''acme-01''),
       CreateDataSource (data_source_request cfg ''acme-01'' kb_id)]"
    using s ds(2) by (simp add: calls_except_clauses put_readme_def index_calls_def)
  have f1: "map_of (success_response w cfg ''acme-01'' kb_id data_source_id) ''success'' =
      Some (PBool True)"
    by (simp add: success_response_def Let_def)
  have f2: "map_of (success_response w cfg ''acme-01'' kb_id data_source_id) ''client_id'' =
      Some (PStr ''acme-01'')"
    by (simp add: success_response_def Let_def)
  have f3: "map_of (success_response w cfg ''acme-01'' kb_id data_source_id) ''opensearch_index'' =
      Some (PStr ''acme-01_index'')"
    by (simp add: success_response_def Let_def)
  have f4: "map_of (success_response w cfg ''acme-01'' kb_id data_source_id) ''status'' =
      Some (PStr ''created'')"
    by (simp add: success_response_def Let_def)
  have g1: "kb_args_name (knowledge_base_request cfg ''acme-01'') = ''kb-acme-01''"
    by (simp add: knowledge_base_request_def)
  have g2: "vectorIndexName (knowledge_base_request cfg ''acme-01'') = ''acme-01_index''"
    by (simp add: knowledge_base_request_def)
  have g3: "inclusionPrefixes (data_source_request cfg ''acme-01'' kb_id) = [''acme-01/'']"
    by (simp add: data_source_request_def Let_def)
  from cid resp f1 f2 f3 f4 cls g1 g2 g3 show ?thesis
    by (intro conjI)
qed

text \<open>
  C8. For the body \<^verbatim>\<open>{"client_id": "Acme-01"}\<close>, parsed as JSON reads it, with a complete
  configuration, no knowledge base named \<^verbatim>\<open>kb-acme-01\<close> in the listing and every service
  call succeeding: the identifier is \<^verbatim>\<open>acme-01\<close>, the marker object is written under
  \<^verbatim>\<open>acme-01/\<close>, the index is \<^verbatim>\<open>acme-01_index\<close>, the knowledge base is \<^verbatim>\<open>kb-acme-01\<close>
  on that index, the data source includes the prefix \<^verbatim>\<open>acme-01/\<close>, and the response is
  HTTP 200 with \<^verbatim>\<open>success\<close> true, \<^verbatim>\<open>client_id\<close> \<^verbatim>\<open>acme-01\<close>, \<^verbatim>\<open>opensearch_index\<close>
  \<^verbatim>\<open>acme-01_index\<close> and \<^verbatim>\<open>status\<close> \<^verbatim>\<open>created\<close>.
\<close>

theorem acme_end_to_end:
  assumes "map_of event ''body'' = Some (PStr (body_text ''Acme-01''))"
    and "json_loads w (body_text ''Acme-01'') = Inr (PDict [(''client_id'', PStr ''Acme-01'')])"
    and "read_config w = Inr cfg"
    and "client_setup w (region cfg) (host cfg) = None"
    and "list_knowledge_bases w = Inr existing_kbs"
    and "\<forall>kb\<in>set existing_kbs. name kb \<noteq> ''kb-acme-01''"
    and "folder_written w cfg ''acme-01''"
    and "index_ready w ''acme-01''"
    and "create_knowledge_base w (knowledge_base_request cfg ''acme-01'') = Inr kb_id"
    and "create_data_source w (data_source_request cfg ''acme-01'' kb_id) = Inr data_source_id"
  shows "get_client_id w event = Inr ''acme-01'' \<and>
         statusCode (fst (lambda_handler w event)) = 200 \<and>
         (\<exists>d. body (fst (lambda_handler w event)) = PDict d \<and>
              map_of d ''success'' = Some (PBool True) \<and>
              map_of d ''client_id'' = Some (PStr ''acme-01'') \<and>
              map_of d ''opensearch_index'' = Some (PStr ''acme-01_index'') \<and>
              map_of d ''status'' = Some (PStr ''created'') \<and>
              map_of d ''s3_folder'' = Some (PStr ''acme-01/'') \<and>
              map_of d ''kb_id'' = Some (PStr kb_id) \<and>
              map_of d ''data_source_id'' = Some (PStr data_source_id)) \<and>
         calls (snd (lambda_handler w event)) =
           [ListKnowledgeBases,
            PutObject (s3_bucket_name cfg) ''acme-01/README.md''
              ''# Knowledge Base para acme-01'' ''text/markdown'',
            IndexExists ''acme-01_index''] @
           (if indices_exists w ''acme-01_index'' = Inr True then []
            else [CreateIndex ''acme-01_index'' index_body]) @
           [CreateKnowledgeBase (knowledge_base_request cfg ''acme-01''),
            CreateDataSource (data_source_request cfg ''acme-01'' kb_id)] \<and>
         kb_args_name (knowledge_base_request cfg ''acme-01'') = ''kb-acme-01'' \<and>
         vectorIndexName (knowledge_base_request cfg ''acme-01'') = ''acme-01_index'' \<and>
         ds_args_knowledgeBaseId (data_source_request cfg ''acme-01'' kb_id) = kb_id \<and>
         inclusionPrefixes (data_source_request cfg ''acme-01'' kb_id) = [''acme-01/''] \<and>
         fst (lambda_handler w event) =
           reply 200 (success_response w cfg ''acme-01'' kb_id data_source_id)"
proof -
  note run = acme_run [OF assms]
  from run have r: "fst (lambda_handler w event) =
      reply 200 (success_response w cfg ''acme-01'' kb_id data_source_id)"
    by blast
  have st: "statusCode (fst (lambda_handler w event)) = 200"
    by (simp add: r reply_fields)
  have bd: "body (fst (lambda_handler w event)) =
      PDict (success_response w cfg ''acme-01'' kb_id data_source_id)"
    by (simp add: r reply_fields)
  have m1: "map_of (success_response w cfg ''acme-01'' kb_id data_source_id) ''s3_folder'' =
      Some (PStr ''acme-01/'')"
    by (simp add: success_response_def Let_def)
  have m2: "map_of (success_response w cfg ''acme-01'' kb_id data_source_id) ''kb_id'' =
      Some (PStr kb_id)"
    by (simp add: success_response_def Let_def)
  have m3: "map_of (success_response w cfg ''acme-01'' kb_id data_source_id) ''data_source_id'' =
      Some (PStr data_source_id)"
    by (simp add: success_response_def Let_def)
  have ex: "\<exists>d. body (fst (lambda_handler w event)) = PDict d \<and>
              map_of d ''success'' = Some (PBool True) \<and>
              map_of d ''client_id'' = Some (PStr ''acme-01'') \<and>
              map_of d ''opensearch_index'' = Some (PStr ''acme-01_index'') \<and>
              map_of d ''status'' = Some (PStr ''created'') \<and>
              map_of d ''s3_folder'' = Some (PStr ''acme-01/'') \<and>
              map_of d ''kb_id'' = Some (PStr kb_id) \<and>
              map_of d ''data_source_id'' = Some (PStr data_source_id)"
    using bd run m1 m2 m3 by blast
  have g: "ds_args_knowledgeBaseId (data_source_request cfg ''acme-01'' kb_id) = kb_id"
    by (simp add: data_source_request_def Let_def)
  from st ex g run show ?thesis
    by blast
qed

theorem acme_end_to_end_witness:
  "map_of (tenant_event ''Acme-01'') ''body'' = Some (PStr (body_text ''Acme-01'')) \<and>
   json_loads (tenant_world ''Acme-01'') (body_text ''Acme-01'') =
     Inr (PDict [(''client_id'', PStr ''Acme-01'')]) \<and>
   read_config (tenant_world ''Acme-01'') = Inr sample_config \<and>
   client_setup (tenant_world ''Acme-01'') (region sample_config) (host sample_config) = None \<and>
   list_knowledge_bases (tenant_world ''Acme-01'') = Inr [] \<and>
   folder_written (tenant_world ''Acme-01'') sample_config ''acme-01'' \<and>
   index_ready (tenant_world ''Acme-01'') ''acme-01'' \<and>
   create_knowledge_base (tenant_world ''Acme-01'') (knowledge_base_request sample_config ''acme-01'') =
     Inr ''KB0000000A'' \<and>
   create_data_source (tenant_world ''Acme-01'')
       (data_source_request sample_config ''acme-01'' ''KB0000000A'') = Inr ''DS0000000A'' \<and>
   statusCode (fst (lambda_handler (tenant_world ''Acme-01'') (tenant_event ''Acme-01''))) = 200 \<and>
   (\<exists>d. body (fst (lambda_handler (tenant_world ''Acme-01'') (tenant_event ''Acme-01''))) =
          PDict d \<and>
        map_of d ''success'' = Some (PBool True) \<and>
        map_of d ''client_id'' = Some (PStr ''acme-01'') \<and>
        map_of d ''opensearch_index'' = Some (PStr ''acme-01_index'') \<and>
        map_of d ''status'' = Some (PStr ''created'')) \<and>
   fst (lambda_handler (tenant_world ''Acme-01'') (tenant_event ''Acme-01'')) =
     reply 200 (success_response (tenant_world ''Acme-01'') sample_config ''acme-01''
                  ''KB0000000A'' ''DS0000000A'') \<and>
   calls (snd (lambda_handler (tenant_world ''Acme-01'') (tenant_event ''Acme-01''))) =
     [ListKnowledgeBases,
      PutObject (s3_bucket_name sample_config) ''acme-01/README.md''
        ''# Knowledge Base para acme-01'' ''text/markdown'',
      IndexExists ''acme-01_index''] @
     (if indices_exists (tenant_world ''Acme-01'') ''acme-01_index'' = Inr True then []
      else [CreateIndex ''acme-01_index'' index_body]) @
     [CreateKnowledgeBase (knowledge_base_request sample_config ''acme-01''),
      CreateDataSource (data_source_request sample_config ''acme-01'' ''KB0000000A'')]"
proof -
  have h1: "map_of (tenant_event ''Acme-01'') ''body'' = Some (PStr (body_text ''Acme-01''))"
    by (simp add: tenant_event_def sample_event_def)
  have h2: "json_loads (tenant_world ''Acme-01'') (body_text ''Acme-01'') =
     Inr (PDict [(''client_id'', PStr ''Acme-01'')])"
    by (simp add: tenant_world_def sample_world_def)
  have h3: "read_config (tenant_world ''Acme-01'') = Inr sample_config"
    by code_simp
  have h4: "client_setup (tenant_world ''Acme-01'') (region sample_config) (host sample_config) = None"
    by (simp add: tenant_world_def sample_world_def)
  have h5: "list_knowledge_bases (tenant_world ''Acme-01'') = Inr []"
    by (simp add: tenant_world_def sample_world_def)
  have h6: "\<forall>kb\<in>set ([] :: kb_summary list). name kb \<noteq> ''kb-acme-01''"
    by simp
  have h7: "folder_written (tenant_world ''Acme-01'') sample_config ''acme-01''"
    by (simp add: folder_written_def tenant_world_def sample_world_def)
  have h8: "index_ready (tenant_world ''Acme-01'') ''acme-01''"
    by (simp add: index_ready_def tenant_world_def sample_world_def)
  have h9: "create_knowledge_base (tenant_world ''Acme-01'')
      (knowledge_base_request sample_config ''acme-01'') = Inr ''KB0000000A''"
    by (simp add: tenant_world_def sample_world_def)
  have h10: "create_data_source (tenant_world ''Acme-01'')
       (data_source_request sample_config ''acme-01'' ''KB0000000A'') = Inr ''DS0000000A''"
    by (simp add: tenant_world_def sample_world_def)
  show ?thesis
    using h1 h2 h3 h4 h5 h7 h8 h9 h10
      acme_end_to_end [OF h1 h2 h3 h4 h5 h6 h7 h8 h9 h10]
    by blast
qed

end
